theory Spec2Isabelle
  imports Main
begin

section \<open>RDF terms and statements\<close>

text \<open>
  The terms of the RDF/JS data model, as the \<^verbatim>\<open>n3\<close> data factory builds them:
  \<^verbatim>\<open>namedNode(iri)\<close>, \<^verbatim>\<open>blankNode(label)\<close>, \<^verbatim>\<open>literal(value, languageOrDatatype)\<close> and the
  default-graph term. A literal carries its lexical value, its language tag and the IRI of
  its datatype. JavaScript strings are modelled as \<^typ>\<open>string\<close> (code units below 256).
\<close>

datatype rdf_term =
    NamedNode string
  | BlankNode string
  | Literal string string string
  | DefaultGraph

text \<open>The \<^verbatim>\<open>.value\<close> property of a term; the default graph has the empty string.\<close>

fun term_value :: "rdf_term \<Rightarrow> string" where
  "term_value (NamedNode iri) = iri"
| "term_value (BlankNode label) = label"
| "term_value (Literal v lang dt) = v"
| "term_value DefaultGraph = []"

datatype quad = Quad (subject: rdf_term) (predicate: rdf_term) (object: rdf_term) (graph: rdf_term)

text \<open>
  \<^verbatim>\<open>DataFactory.quad(subject, predicate, object, graph?)\<close>: a statement built without a graph
  lies in the default graph, and its \<^verbatim>\<open>graph\<close> property is the default-graph term.
\<close>

fun quad_of :: "rdf_term \<Rightarrow> rdf_term \<Rightarrow> rdf_term \<Rightarrow> rdf_term option \<Rightarrow> quad" where
  "quad_of s p ob None = Quad s p ob DefaultGraph"
| "quad_of s p ob (Some g) = Quad s p ob g"

subsection \<open>Term factory (utils.ts)\<close>

definition createNamedNode :: "string \<Rightarrow> rdf_term" where
  "createNamedNode uri = NamedNode uri"

definition xsd_string :: string where
  "xsd_string = ''http://www.w3.org/2001/XMLSchema#string''"

text \<open>\<^verbatim>\<open>createLiteral(value)\<close> with no language and no datatype: a plain string literal.\<close>

definition createLiteral :: "string \<Rightarrow> rdf_term" where
  "createLiteral v = Literal v [] xsd_string"

definition createTypedLiteral :: "string \<Rightarrow> string \<Rightarrow> rdf_term" where
  "createTypedLiteral v datatype_iri = Literal v [] datatype_iri"

text \<open>\<^verbatim>\<open>value.toString()\<close> of a boolean.\<close>

definition bool_toString :: "bool \<Rightarrow> string" where
  "bool_toString b = (if b then ''true'' else ''false'')"

definition createBooleanLiteral :: "bool \<Rightarrow> rdf_term" where
  "createBooleanLiteral b =
     createTypedLiteral (bool_toString b) ''http://www.w3.org/2001/XMLSchema#boolean''"

section \<open>The statement store\<close>

text \<open>
  Modelled from the spec: the \<^verbatim>\<open>Store\<close> class of the third-party \<^verbatim>\<open>n3\<close> package, which
  the repository wraps and does not contain. The spec describes it as a set of statements
  with structural equality, where re-adding a statement is a no-op, removing an absent one
  is a no-op, and retrieval returns the matching statements in store order. It is modelled
  as a list of statements; \<^verbatim>\<open>addQuad\<close> appends a statement that is not yet there, so the
  order of the list is the order of insertion. The package itself lists statements by the
  numbers it gives to terms when it first sees them, which need not be the order of
  insertion; the general theorems below do not depend on the order, and the example worlds
  are built in an order on which both agree.
\<close>

type_synonym n3_store = "quad list"

definition n3_addQuad :: "quad \<Rightarrow> n3_store \<Rightarrow> n3_store" where
  "n3_addQuad q st = (if q \<in> set st then st else st @ [q])"

definition n3_removeQuad :: "quad \<Rightarrow> n3_store \<Rightarrow> n3_store" where
  "n3_removeQuad q st = filter (\<lambda>x. x \<noteq> q) st"

definition n3_addQuads :: "quad list \<Rightarrow> n3_store \<Rightarrow> n3_store" where
  "n3_addQuads qs st = fold n3_addQuad qs st"

definition n3_removeQuads :: "quad list \<Rightarrow> n3_store \<Rightarrow> n3_store" where
  "n3_removeQuads qs st = fold n3_removeQuad qs st"

definition n3_has :: "quad \<Rightarrow> n3_store \<Rightarrow> bool" where
  "n3_has q st = (q \<in> set st)"

definition n3_size :: "n3_store \<Rightarrow> nat" where
  "n3_size st = length st"

text \<open>A pattern position is \<^verbatim>\<open>null\<close> (unconstrained) or a term.\<close>

fun pos_matches :: "rdf_term option \<Rightarrow> rdf_term \<Rightarrow> bool" where
  "pos_matches None t = True"
| "pos_matches (Some x) t = (x = t)"

definition quad_matches ::
  "rdf_term option \<Rightarrow> rdf_term option \<Rightarrow> rdf_term option \<Rightarrow> rdf_term option \<Rightarrow> quad \<Rightarrow> bool" where
  "quad_matches s p ob g q =
     (pos_matches s (subject q) \<and> pos_matches p (predicate q) \<and>
      pos_matches ob (object q) \<and> pos_matches g (graph q))"

definition n3_getQuads ::
  "rdf_term option \<Rightarrow> rdf_term option \<Rightarrow> rdf_term option \<Rightarrow> rdf_term option \<Rightarrow> n3_store \<Rightarrow> quad list" where
  "n3_getQuads s p ob g st = filter (quad_matches s p ob g) st"

section \<open>RDFDatastore\<close>

text \<open>
  A JavaScript object used as a table, or a \<^verbatim>\<open>Map\<close>, is the list of its entries in
  insertion order: setting a key that is there replaces its value in place, setting a new
  key appends it; looking a key up is \<^const>\<open>map_of\<close>.
\<close>

fun map_set :: "'k \<Rightarrow> 'v \<Rightarrow> ('k \<times> 'v) list \<Rightarrow> ('k \<times> 'v) list" where
  "map_set k v [] = [(k, v)]"
| "map_set k v ((k', v') # es) = (if k' = k then (k, v) # es else (k', v') # map_set k v es)"

text \<open>
  The wrapper class: the underlying store and the prefix table
  (\<^verbatim>\<open>Record<string, string>\<close>, from prefix to namespace IRI). The type of a value is
  not checked when the program runs: a value of the table is a string, or \<^verbatim>\<open>undefined\<close>
  (\<^const>\<open>None\<close>) when that is what \<^verbatim>\<open>setPrefix\<close> was handed.
\<close>

record rdf_datastore =
  store :: n3_store
  prefixes :: "(string \<times> string option) list"

definition default_prefixes :: "(string \<times> string option) list" where
  "default_prefixes =
     [(''rdf'', Some ''http://www.w3.org/1999/02/22-rdf-syntax-ns#''),
      (''rdfs'', Some ''http://www.w3.org/2000/01/rdf-schema#''),
      (''xsd'', Some ''http://www.w3.org/2001/XMLSchema#'')]"

text \<open>\<^verbatim>\<open>new RDFDatastore(quads?)\<close>; \<^verbatim>\<open>new Store(quads)\<close> adds the given statements.\<close>

definition RDFDatastore_new :: "quad list \<Rightarrow> rdf_datastore" where
  "RDFDatastore_new qs = \<lparr> store = n3_addQuads qs [], prefixes = default_prefixes \<rparr>"

text \<open>
  \<^verbatim>\<open>addTriple(subject, predicate, object, graph?)\<close>: the test \<^verbatim>\<open>graph ? ... : ...\<close> is on
  an optional object, so it holds exactly when a graph was passed.
\<close>

definition addTriple ::
  "rdf_term \<Rightarrow> rdf_term \<Rightarrow> rdf_term \<Rightarrow> rdf_term option \<Rightarrow> rdf_datastore \<Rightarrow> rdf_datastore" where
  "addTriple s p ob g ds = ds\<lparr> store := n3_addQuad (quad_of s p ob g) (store ds) \<rparr>"

definition addQuads :: "quad list \<Rightarrow> rdf_datastore \<Rightarrow> rdf_datastore" where
  "addQuads qs ds = ds\<lparr> store := n3_addQuads qs (store ds) \<rparr>"

definition removeTriple ::
  "rdf_term \<Rightarrow> rdf_term \<Rightarrow> rdf_term \<Rightarrow> rdf_term option \<Rightarrow> rdf_datastore \<Rightarrow> rdf_datastore" where
  "removeTriple s p ob g ds = ds\<lparr> store := n3_removeQuad (quad_of s p ob g) (store ds) \<rparr>"

text \<open>
  \<^verbatim>\<open>QueryPattern\<close>: every field optional; \<^verbatim>\<open>pattern.subject || null\<close> turns a missing
  field into the unconstrained position.
\<close>

record query_pattern =
  pat_subject :: "rdf_term option"
  pat_predicate :: "rdf_term option"
  pat_object :: "rdf_term option"
  pat_graph :: "rdf_term option"

definition match :: "query_pattern \<Rightarrow> rdf_datastore \<Rightarrow> quad list" where
  "match pat ds =
     n3_getQuads (pat_subject pat) (pat_predicate pat) (pat_object pat) (pat_graph pat) (store ds)"

definition removeMatches :: "query_pattern \<Rightarrow> rdf_datastore \<Rightarrow> rdf_datastore" where
  "removeMatches pat ds = ds\<lparr> store := n3_removeQuads (match pat ds) (store ds) \<rparr>"

definition getObjects ::
  "rdf_term \<Rightarrow> rdf_term \<Rightarrow> rdf_term option \<Rightarrow> rdf_datastore \<Rightarrow> rdf_term list" where
  "getObjects s p g ds =
     map object (match \<lparr> pat_subject = Some s, pat_predicate = Some p,
                         pat_object = None, pat_graph = g \<rparr> ds)"

definition has ::
  "rdf_term \<Rightarrow> rdf_term \<Rightarrow> rdf_term \<Rightarrow> rdf_term option \<Rightarrow> rdf_datastore \<Rightarrow> bool" where
  "has s p ob g ds = n3_has (quad_of s p ob g) (store ds)"

definition size_ds :: "rdf_datastore \<Rightarrow> nat" where
  "size_ds ds = n3_size (store ds)"

definition clear :: "rdf_datastore \<Rightarrow> rdf_datastore" where
  "clear ds = ds\<lparr> store := n3_removeQuads (n3_getQuads None None None None (store ds)) (store ds) \<rparr>"

text \<open>\<^verbatim>\<open>setPrefix(prefix, uri)\<close>: \<^verbatim>\<open>this.prefixes[prefix] = uri\<close>, whatever \<^verbatim>\<open>uri\<close> is.\<close>

definition setPrefix :: "string \<Rightarrow> string option \<Rightarrow> rdf_datastore \<Rightarrow> rdf_datastore" where
  "setPrefix prefix uri ds = ds\<lparr> prefixes := map_set prefix uri (prefixes ds) \<rparr>"

definition getPrefixes :: "rdf_datastore \<Rightarrow> (string \<times> string option) list" where
  "getPrefixes ds = prefixes ds"

text \<open>
  \<^verbatim>\<open>for (const quad of this.store)\<close>: the store's iterator walks its index graph by graph,
  subject by subject and predicate by predicate, and builds each statement from term
  objects it creates on the way: one subject object for every (graph, subject) group, one
  predicate object for every (graph, subject, predicate) group. A JavaScript \<^verbatim>\<open>Set\<close> keeps
  objects by reference, so \<^verbatim>\<open>getSubjects\<close> and \<^verbatim>\<open>getPredicates\<close> hold one entry for each
  object added. A term object is modelled by the index path it was created at together
  with the term it denotes. (The repository's test of \<^verbatim>\<open>getStats\<close> notes that the
  predicate count ``should be 2, but might vary based on N3.js internals''.)
\<close>

type_synonym term_object = "rdf_term list \<times> rdf_term"

definition iter_subject :: "quad \<Rightarrow> term_object" where
  "iter_subject q = ([graph q], subject q)"

definition iter_predicate :: "quad \<Rightarrow> term_object" where
  "iter_predicate q = ([graph q, subject q], predicate q)"

text \<open>\<^verbatim>\<open>set.add(x)\<close> on a set kept in insertion order.\<close>

definition set_add :: "'a \<Rightarrow> 'a list \<Rightarrow> 'a list" where
  "set_add x xs = (if x \<in> set xs then xs else xs @ [x])"

definition getSubjects :: "rdf_datastore \<Rightarrow> term_object list" where
  "getSubjects ds = fold (\<lambda>q subjects. set_add (iter_subject q) subjects) (store ds) []"

definition getPredicates :: "rdf_datastore \<Rightarrow> term_object list" where
  "getPredicates ds = fold (\<lambda>q predicates. set_add (iter_predicate q) predicates) (store ds) []"

record datastore_stats =
  tripleCount :: nat
  subjectCount :: nat
  predicateCount :: nat
  graphCount :: nat

text \<open>
  \<^verbatim>\<open>if (quad.graph)\<close> tests an object: the \<^verbatim>\<open>graph\<close> property of a statement is always a
  term (the default-graph term when no graph was given), and every object is truthy.
\<close>

fun js_truthy_term :: "rdf_term \<Rightarrow> bool" where
  "js_truthy_term t = True"

definition getStats :: "rdf_datastore \<Rightarrow> datastore_stats" where
  "getStats ds =
     (let subjects = getSubjects ds;
          predicates = getPredicates ds;
          graphs = fold (\<lambda>q graphs.
                     if js_truthy_term (graph q) then set_add (term_value (graph q)) graphs
                     else graphs) (store ds) []
      in \<lparr> tripleCount = n3_size (store ds),
           subjectCount = length subjects,
           predicateCount = length predicates,
           graphCount = length graphs \<rparr>)"

subsection \<open>Parsing\<close>

text \<open>
  Modelled from the spec: the \<^verbatim>\<open>Parser\<close> class of \<^verbatim>\<open>n3\<close>, absent from the repository.
  \<^verbatim>\<open>parser.parse(data, callback)\<close> scans the text and calls back once for every decoded
  statement, and then once more: with the error if the text is malformed, or with no
  statement and the declared prefixes when the text has been fully scanned. A run of the
  parser is the list of these calls; the parser itself is a parameter. The prefixes of the
  last call are the parser's own table, from prefix to namespace IRI as a plain string
  (the type declarations of the package announce terms there, which is how the source
  comes to read \<^verbatim>\<open>uri.value\<close>).
\<close>

datatype parse_event =
    ParseError string
  | ParseQuad quad
  | ParseEnd "(string \<times> string) list option"

type_synonym n3_parser = "string \<Rightarrow> string \<Rightarrow> parse_event list"

text \<open>The promise returned by \<^verbatim>\<open>parseFromString\<close>; it settles once.\<close>

datatype promise_state = Pending | Resolved | Rejected string

fun settle :: "promise_state \<Rightarrow> promise_state \<Rightarrow> promise_state" where
  "settle new Pending = new"
| "settle new old = old"

text \<open>The state the callback closes over: the local array \<^verbatim>\<open>quads\<close>, the datastore, the promise.\<close>

record parse_run =
  quads :: "quad list"
  target :: rdf_datastore
  promise :: promise_state

text \<open>
  \<^verbatim>\<open>uri.value\<close> where \<^verbatim>\<open>uri\<close> is a string: a string has no property \<^verbatim>\<open>value\<close>, and reading
  it gives \<^verbatim>\<open>undefined\<close>.
\<close>

fun string_value :: "string \<Rightarrow> string option" where
  "string_value uri = None"

text \<open>
  \<^verbatim>\<open>if (prefixes) Object.entries(prefixes).forEach(([prefix, uri]) => this.setPrefix(prefix, uri.value))\<close>
\<close>

definition merge_prefixes :: "(string \<times> string) list option \<Rightarrow> rdf_datastore \<Rightarrow> rdf_datastore" where
  "merge_prefixes pfx ds =
     (case pfx of
        None \<Rightarrow> ds
      | Some entries \<Rightarrow> fold (\<lambda>(prefix, uri) ds. setPrefix prefix (string_value uri) ds) entries ds)"

fun parse_callback :: "parse_event \<Rightarrow> parse_run \<Rightarrow> parse_run" where
  "parse_callback (ParseError e) r = r\<lparr> promise := settle (Rejected e) (promise r) \<rparr>"
| "parse_callback (ParseQuad q) r = r\<lparr> quads := quads r @ [q] \<rparr>"
| "parse_callback (ParseEnd pfx) r =
     r\<lparr> target := merge_prefixes pfx (addQuads (quads r) (target r)),
        promise := settle Resolved (promise r) \<rparr>"

definition parseFromString ::
  "n3_parser \<Rightarrow> string \<Rightarrow> string \<Rightarrow> rdf_datastore \<Rightarrow> promise_state \<times> rdf_datastore" where
  "parseFromString parser data format ds =
     (let r = fold parse_callback (parser data format)
                \<lparr> quads = [], target = ds, promise = Pending \<rparr>
      in (promise r, target r))"

text \<open>
  The two ways a run of the parser ends: statements and then the error, or statements and
  then the end of the text with its prefixes.
\<close>

fun is_ParseQuad :: "parse_event \<Rightarrow> bool" where
  "is_ParseQuad (ParseQuad q) = True"
| "is_ParseQuad ev = False"

fun event_quads :: "parse_event list \<Rightarrow> quad list" where
  "event_quads [] = []"
| "event_quads (ParseQuad q # evs) = q # event_quads evs"
| "event_quads (ev # evs) = event_quads evs"

definition run_fails :: "parse_event list \<Rightarrow> string \<Rightarrow> bool" where
  "run_fails evs e = (evs \<noteq> [] \<and> last evs = ParseError e \<and> list_all is_ParseQuad (butlast evs))"

definition run_succeeds :: "parse_event list \<Rightarrow> (string \<times> string) list option \<Rightarrow> bool" where
  "run_succeeds evs pfx = (evs \<noteq> [] \<and> last evs = ParseEnd pfx \<and> list_all is_ParseQuad (butlast evs))"

section \<open>Strings\<close>

text \<open>\<^verbatim>\<open>s.split(sep)\<close> for a one-character separator: never an empty array.\<close>

fun js_split :: "char \<Rightarrow> string \<Rightarrow> string list" where
  "js_split c [] = [[]]"
| "js_split c (x # xs) =
     (if x = c then [] # js_split c xs
      else (case js_split c xs of
              [] \<Rightarrow> [[x]]
            | w # ws \<Rightarrow> (x # w) # ws))"

text \<open>\<^verbatim>\<open>array.pop()\<close> as a value: the last element, or \<^verbatim>\<open>undefined\<close> for an empty array.\<close>

fun js_pop :: "'a list \<Rightarrow> 'a option" where
  "js_pop [] = None"
| "js_pop xs = Some (last xs)"

text \<open>
  \<^verbatim>\<open>x || ''\<close> and \<^verbatim>\<open>x || null\<close> for a string or \<^verbatim>\<open>undefined\<close>: the empty string is falsy.
\<close>

fun or_empty :: "string option \<Rightarrow> string" where
  "or_empty None = []"
| "or_empty (Some s) = (if s = [] then [] else s)"

fun or_null :: "string option \<Rightarrow> string option" where
  "or_null None = None"
| "or_null (Some s) = (if s = [] then None else Some s)"

text \<open>\<^verbatim>\<open>uri.split('/').pop()\<close>\<close>

definition last_segment :: "string \<Rightarrow> string option" where
  "last_segment uri = js_pop (js_split (CHR ''/'') uri)"

text \<open>\<^verbatim>\<open>n.toString()\<close> of a counter value: its decimal digits.\<close>

definition digit_char :: "nat \<Rightarrow> char" where
  "digit_char d = ''0123456789'' ! d"

function nat_toString :: "nat \<Rightarrow> string" where
  "nat_toString n =
     (if n < 10 then [digit_char n] else nat_toString (n div 10) @ [digit_char (n mod 10)])"
  by pat_completeness auto
termination
  by (relation "measure (\<lambda>n. n)") auto

declare nat_toString.simps [simp del]

text \<open>
  White space as \<^verbatim>\<open>trim()\<close> and the regular expression \<^verbatim>\<open>\s\<close> read it, among the code
  units below 256: tab, line feed, vertical tab, form feed, carriage return, space and the
  no-break space.
\<close>

definition js_space :: "char \<Rightarrow> bool" where
  "js_space c = (c \<in> set [CHR 0x09, CHR 0x0A, CHR 0x0B, CHR 0x0C, CHR 0x0D, CHR 0x20, CHR 0xA0])"

definition js_trim :: "string \<Rightarrow> string" where
  "js_trim s = rev (dropWhile js_space (rev (dropWhile js_space s)))"

text \<open>
  \<^verbatim>\<open>s.split(/\s+/)\<close>: the pieces between maximal runs of white space; a run at the start or
  at the end of the string leaves an empty piece there.
\<close>

function split_ws :: "string \<Rightarrow> string list" where
  "split_ws s =
     (let w = takeWhile (\<lambda>c. \<not> js_space c) s;
          rest = dropWhile (\<lambda>c. \<not> js_space c) s
      in if rest = [] then [w] else w # split_ws (dropWhile js_space rest))"
  by pat_completeness auto
termination
proof (relation "measure length")
  show "wf (measure length)" by simp
next
  fix s :: string and w rest
  assume rest: "rest = dropWhile (\<lambda>c. \<not> js_space c) s" and ne: "rest \<noteq> []"
  from ne have "js_space (hd rest)"
    unfolding rest using hd_dropWhile [of "\<lambda>c. \<not> js_space c" s] by auto
  with ne have "length (dropWhile js_space rest) < length rest"
    by (cases rest) (auto simp: less_Suc_eq_le length_dropWhile_le)
  moreover have "length rest \<le> length s"
    unfolding rest by (rule length_dropWhile_le)
  ultimately show "(dropWhile js_space rest, s) \<in> measure length" by simp
qed

declare split_ws.simps [simp del]

text \<open>
  \<^verbatim>\<open>s.toLowerCase()\<close> on code units below 256: the letters A to Z, and the capital letters
  of the Latin-1 range (0xC0 to 0xDE without the multiplication sign 0xD7).
\<close>

definition js_lower_char :: "char \<Rightarrow> char" where
  "js_lower_char c =
     (case map_of (zip ''ABCDEFGHIJKLMNOPQRSTUVWXYZ'' ''abcdefghijklmnopqrstuvwxyz'') c of
        Some l \<Rightarrow> l
      | None \<Rightarrow>
          (let n = (of_char c :: nat)
           in if 192 \<le> n \<and> n \<le> 222 \<and> n \<noteq> 215 then char_of (n + 32) else c))"

definition toLowerCase :: "string \<Rightarrow> string" where
  "toLowerCase s = map js_lower_char s"

text \<open>\<^verbatim>\<open>s.includes(t)\<close>: \<^verbatim>\<open>t\<close> occurs in \<^verbatim>\<open>s\<close> as a substring.\<close>

fun js_includes :: "string \<Rightarrow> string \<Rightarrow> bool" where
  "js_includes [] t = (t = [])"
| "js_includes (x # xs) t = (take (length t) (x # xs) = t \<or> js_includes xs t)"

text \<open>\<^verbatim>\<open>!x\<close> for a string or \<^verbatim>\<open>null\<close>: \<^verbatim>\<open>null\<close> and the empty string are falsy.\<close>

fun js_not :: "string option \<Rightarrow> bool" where
  "js_not None = True"
| "js_not (Some s) = (s = [])"

text \<open>\<^verbatim>\<open>parts.join(sep)\<close>\<close>

fun join :: "string \<Rightarrow> string list \<Rightarrow> string" where
  "join sep [] = []"
| "join sep [x] = x"
| "join sep (x # y # ys) = x @ sep @ join sep (y # ys)"

text \<open>A string or \<^verbatim>\<open>null\<close> inside a template literal.\<close>

fun show_nullable :: "string option \<Rightarrow> string" where
  "show_nullable None = ''null''"
| "show_nullable (Some s) = s"

definition newline :: string where
  "newline = [CHR 0x0A]"

section \<open>The MUD vocabulary (ontology.ts)\<close>

definition MUD_NS :: string where
  "MUD_NS = ''http://example.org/mud#''"

definition mudTerm :: "string \<Rightarrow> rdf_term" where
  "mudTerm localName = createNamedNode (MUD_NS @ localName)"

datatype exit_direction = north | south | east | west | up | down

definition mudVocab_Room :: rdf_term where "mudVocab_Room = mudTerm ''Room''"
definition mudVocab_Item :: rdf_term where "mudVocab_Item = mudTerm ''Item''"
definition mudVocab_Player :: rdf_term where "mudVocab_Player = mudTerm ''Player''"
definition mudVocab_name :: rdf_term where "mudVocab_name = mudTerm ''name''"
definition mudVocab_description :: rdf_term where "mudVocab_description = mudTerm ''description''"
definition mudVocab_location :: rdf_term where "mudVocab_location = mudTerm ''location''"
definition mudVocab_contains :: rdf_term where "mudVocab_contains = mudTerm ''contains''"
definition mudVocab_portable :: rdf_term where "mudVocab_portable = mudTerm ''portable''"
definition mudVocab_inventory :: rdf_term where "mudVocab_inventory = mudTerm ''inventory''"

text \<open>The name of a direction, and \<^verbatim>\<open>mudVocab[direction]\<close>.\<close>

fun direction_name :: "exit_direction \<Rightarrow> string" where
  "direction_name north = ''north''"
| "direction_name south = ''south''"
| "direction_name east = ''east''"
| "direction_name west = ''west''"
| "direction_name up = ''up''"
| "direction_name down = ''down''"

definition mudVocab_exit :: "exit_direction \<Rightarrow> rdf_term" where
  "mudVocab_exit d = mudTerm (direction_name d)"

definition rdfTypes_type :: rdf_term where
  "rdfTypes_type = NamedNode (''http://www.w3.org/1999/02/22-rdf-syntax-ns#'' @ ''type'')"

section \<open>MudWorld\<close>

text \<open>
  The world: its datastore (the field \<^verbatim>\<open>store\<close> of the class) and the counter that
  numbers the entities.
\<close>

record mud_world =
  datastore :: rdf_datastore
  entityCounter :: nat

definition MudWorld_new :: mud_world where
  "MudWorld_new =
     \<lparr> datastore = setPrefix ''mud'' (Some MUD_NS) (RDFDatastore_new []), entityCounter = 0 \<rparr>"

definition generateId :: "string \<Rightarrow> mud_world \<Rightarrow> string \<times> mud_world" where
  "generateId type w =
     (let w' = w\<lparr> entityCounter := entityCounter w + 1 \<rparr>
      in (type @ ''-'' @ nat_toString (entityCounter w'), w'))"

definition entityUri :: "string \<Rightarrow> rdf_term" where
  "entityUri eid = createNamedNode (''http://example.org/game/'' @ eid)"

text \<open>\<^verbatim>\<open>this.store.addTriple(s, p, o)\<close> and \<^verbatim>\<open>this.store.removeTriple(s, p, o)\<close> on the world.\<close>

definition store_add :: "rdf_term \<Rightarrow> rdf_term \<Rightarrow> rdf_term \<Rightarrow> mud_world \<Rightarrow> mud_world" where
  "store_add s p ob w = w\<lparr> datastore := addTriple s p ob None (datastore w) \<rparr>"

definition store_remove :: "rdf_term \<Rightarrow> rdf_term \<Rightarrow> rdf_term \<Rightarrow> mud_world \<Rightarrow> mud_world" where
  "store_remove s p ob w = w\<lparr> datastore := removeTriple s p ob None (datastore w) \<rparr>"

definition store_objects :: "rdf_term \<Rightarrow> rdf_term \<Rightarrow> mud_world \<Rightarrow> rdf_term list" where
  "store_objects s p w = getObjects s p None (datastore w)"

definition createRoom :: "string \<Rightarrow> string \<Rightarrow> mud_world \<Rightarrow> string \<times> mud_world" where
  "createRoom name description w =
     (let (eid, w1) = generateId ''room'' w;
          room = entityUri eid;
          w2 = store_add room rdfTypes_type mudVocab_Room w1;
          w3 = store_add room mudVocab_name (createLiteral name) w2;
          w4 = store_add room mudVocab_description (createLiteral description) w3
      in (eid, w4))"

definition connectRooms :: "string \<Rightarrow> exit_direction \<Rightarrow> string \<Rightarrow> mud_world \<Rightarrow> mud_world" where
  "connectRooms fromRoomId direction toRoomId w =
     (let fromRoom = entityUri fromRoomId;
          toRoom = entityUri toRoomId;
          exitPredicate = mudVocab_exit direction
      in store_add fromRoom exitPredicate toRoom w)"

definition createItem :: "string \<Rightarrow> string \<Rightarrow> bool \<Rightarrow> mud_world \<Rightarrow> string \<times> mud_world" where
  "createItem name description portable w =
     (let (eid, w1) = generateId ''item'' w;
          item = entityUri eid;
          w2 = store_add item rdfTypes_type mudVocab_Item w1;
          w3 = store_add item mudVocab_name (createLiteral name) w2;
          w4 = store_add item mudVocab_description (createLiteral description) w3;
          w5 = store_add item mudVocab_portable (createBooleanLiteral portable) w4
      in (eid, w5))"

definition placeItem :: "string \<Rightarrow> string \<Rightarrow> mud_world \<Rightarrow> mud_world" where
  "placeItem itemId roomId w =
     (let item = entityUri itemId;
          room = entityUri roomId;
          w1 = store_add item mudVocab_location room w
      in store_add room mudVocab_contains item w1)"

definition createPlayer :: "string \<Rightarrow> string \<Rightarrow> mud_world \<Rightarrow> string \<times> mud_world" where
  "createPlayer name startingRoomId w =
     (let (eid, w1) = generateId ''player'' w;
          player = entityUri eid;
          room = entityUri startingRoomId;
          w2 = store_add player rdfTypes_type mudVocab_Player w1;
          w3 = store_add player mudVocab_name (createLiteral name) w2;
          w4 = store_add player mudVocab_location room w3
      in (eid, w4))"

text \<open>\<^verbatim>\<open>xs.length > 0 ? xs[0].value : null\<close>\<close>

fun first_value :: "rdf_term list \<Rightarrow> string option" where
  "first_value [] = None"
| "first_value (t # ts) = Some (term_value t)"

definition getRoomName :: "mud_world \<Rightarrow> string \<Rightarrow> string option" where
  "getRoomName w roomId = first_value (store_objects (entityUri roomId) mudVocab_name w)"

definition getRoomDescription :: "mud_world \<Rightarrow> string \<Rightarrow> string option" where
  "getRoomDescription w roomId = first_value (store_objects (entityUri roomId) mudVocab_description w)"

text \<open>
  \<^verbatim>\<open>getRoomExits\<close>: the six directions in order; a direction with a target gets the entry
  \<^verbatim>\<open>exits.set(direction, targetId)\<close>. The \<^verbatim>\<open>Map\<close> is the list of its entries in insertion
  order (no direction is set twice), and \<^verbatim>\<open>exits.get(d)\<close> is \<^const>\<open>map_of\<close>.
\<close>

definition directions :: "exit_direction list" where
  "directions = [north, south, east, west, up, down]"

definition exit_entry :: "mud_world \<Rightarrow> rdf_term \<Rightarrow> exit_direction \<Rightarrow> (exit_direction \<times> string) list" where
  "exit_entry w room direction =
     (case store_objects room (mudVocab_exit direction) w of
        [] \<Rightarrow> []
      | t # ts \<Rightarrow> [(direction, or_empty (last_segment (term_value t)))])"

definition getRoomExits :: "mud_world \<Rightarrow> string \<Rightarrow> (exit_direction \<times> string) list" where
  "getRoomExits w roomId = concat (map (exit_entry w (entityUri roomId)) directions)"

definition getRoomItems :: "mud_world \<Rightarrow> string \<Rightarrow> string list" where
  "getRoomItems w roomId =
     map (\<lambda>node. or_empty (last_segment (term_value node)))
       (store_objects (entityUri roomId) mudVocab_contains w)"

definition getItemName :: "mud_world \<Rightarrow> string \<Rightarrow> string option" where
  "getItemName w itemId = first_value (store_objects (entityUri itemId) mudVocab_name w)"

definition getItemDescription :: "mud_world \<Rightarrow> string \<Rightarrow> string option" where
  "getItemDescription w itemId = first_value (store_objects (entityUri itemId) mudVocab_description w)"

definition isItemPortable :: "mud_world \<Rightarrow> string \<Rightarrow> bool" where
  "isItemPortable w itemId =
     (case store_objects (entityUri itemId) mudVocab_portable w of
        [] \<Rightarrow> False
      | t # ts \<Rightarrow> term_value t = ''true'')"

definition getPlayerLocation :: "mud_world \<Rightarrow> string \<Rightarrow> string option" where
  "getPlayerLocation w playerId =
     (case store_objects (entityUri playerId) mudVocab_location w of
        [] \<Rightarrow> None
      | t # ts \<Rightarrow> or_null (last_segment (term_value t)))"

definition movePlayer :: "string \<Rightarrow> string \<Rightarrow> mud_world \<Rightarrow> mud_world" where
  "movePlayer playerId roomId w =
     (let player = entityUri playerId;
          newRoom = entityUri roomId;
          oldLocations = store_objects player mudVocab_location w;
          w1 = fold (\<lambda>oldLocation. store_remove player mudVocab_location oldLocation) oldLocations w
      in store_add player mudVocab_location newRoom w1)"

definition addToInventory :: "string \<Rightarrow> string \<Rightarrow> mud_world \<Rightarrow> mud_world" where
  "addToInventory playerId itemId w =
     (let player = entityUri playerId;
          item = entityUri itemId;
          locations = store_objects item mudVocab_location w;
          w1 = fold (\<lambda>location w'.
                  store_remove location mudVocab_contains item
                    (store_remove item mudVocab_location location w')) locations w;
          w2 = store_add player mudVocab_inventory item w1
      in store_add item mudVocab_location player w2)"

definition removeFromInventory :: "string \<Rightarrow> string \<Rightarrow> mud_world \<Rightarrow> mud_world" where
  "removeFromInventory playerId itemId w =
     (let player = entityUri playerId;
          item = entityUri itemId;
          w1 = store_remove player mudVocab_inventory item w
      in store_remove item mudVocab_location player w1)"

definition getPlayerInventory :: "mud_world \<Rightarrow> string \<Rightarrow> string list" where
  "getPlayerInventory w playerId =
     map (\<lambda>node. or_empty (last_segment (term_value node)))
       (store_objects (entityUri playerId) mudVocab_inventory w)"

definition dropItem :: "string \<Rightarrow> string \<Rightarrow> mud_world \<Rightarrow> mud_world" where
  "dropItem playerId itemId w =
     (let playerLocation = getPlayerLocation w playerId
      in if js_not playerLocation then w
         else placeItem itemId (the playerLocation) (removeFromInventory playerId itemId w))"

section \<open>CommandProcessor\<close>

record command_result =
  success :: bool
  message :: string

text \<open>
  The command objects, one constructor for each class of the module; a direction shortcut
  carries its name and its direction.
\<close>

datatype command =
    LookCommand
  | GoCommand
  | DirectionCommand string exit_direction
  | TakeCommand
  | DropCommand
  | InventoryCommand
  | HelpCommand

fun command_name :: "command \<Rightarrow> string" where
  "command_name LookCommand = ''look''"
| "command_name GoCommand = ''go''"
| "command_name (DirectionCommand name direction) = name"
| "command_name TakeCommand = ''take''"
| "command_name DropCommand = ''drop''"
| "command_name InventoryCommand = ''inventory''"
| "command_name HelpCommand = ''help''"

fun command_aliases :: "command \<Rightarrow> string list" where
  "command_aliases LookCommand = [''l'']"
| "command_aliases GoCommand = []"
| "command_aliases (DirectionCommand name direction) = []"
| "command_aliases TakeCommand = [''get'', ''pickup'']"
| "command_aliases DropCommand = []"
| "command_aliases InventoryCommand = [''inv'', ''i'']"
| "command_aliases HelpCommand = [''?'', ''commands'']"

fun command_description :: "command \<Rightarrow> string" where
  "command_description LookCommand = ''Look around the current room''"
| "command_description GoCommand = ''Move in a direction (go <direction>)''"
| "command_description (DirectionCommand name direction) = ''Move '' @ direction_name direction"
| "command_description TakeCommand = ''Pick up an item (take <item>)''"
| "command_description DropCommand = ''Drop an item from your inventory (drop <item>)''"
| "command_description InventoryCommand = ''Show your inventory''"
| "command_description HelpCommand = ''Show this help message''"

text \<open>
  The registry \<^verbatim>\<open>Map<string, Command>\<close> as the list of its entries in insertion order,
  written with \<^const>\<open>map_set\<close>.
\<close>

type_synonym registry = "(string \<times> command) list"

definition registerCommand :: "command \<Rightarrow> registry \<Rightarrow> registry" where
  "registerCommand cmd commands =
     fold (\<lambda>alias. map_set (toLowerCase alias) cmd) (command_aliases cmd)
       (map_set (toLowerCase (command_name cmd)) cmd commands)"

definition direction_shortcuts :: "(string \<times> exit_direction) list" where
  "direction_shortcuts =
     [(''n'', north), (''s'', south), (''e'', east), (''w'', west), (''u'', up), (''d'', down),
      (''north'', north), (''south'', south), (''east'', east), (''west'', west),
      (''up'', up), (''down'', down)]"

definition registerDefaultCommands :: "registry \<Rightarrow> registry" where
  "registerDefaultCommands commands =
     (let c1 = registerCommand LookCommand commands;
          c2 = registerCommand GoCommand c1;
          c3 = fold (\<lambda>(alias, direction). registerCommand (DirectionCommand alias direction))
                 direction_shortcuts c2;
          c4 = registerCommand TakeCommand c3;
          c5 = registerCommand DropCommand c4;
          c6 = registerCommand InventoryCommand c5
      in registerCommand HelpCommand c6)"

definition CommandProcessor_new :: registry where
  "CommandProcessor_new = registerDefaultCommands []"

text \<open>\<^verbatim>\<open>getCommands\<close>: the distinct command objects, in the order of the registry.\<close>

definition getCommands :: "registry \<Rightarrow> command list" where
  "getCommands commands = fold (\<lambda>(key, cmd) uniqueCommands. set_add cmd uniqueCommands) commands []"

definition failure :: "string \<Rightarrow> command_result" where
  "failure msg = \<lparr> success = False, message = msg \<rparr>"

definition succeeded :: "string \<Rightarrow> command_result" where
  "succeeded msg = \<lparr> success = True, message = msg \<rparr>"

text \<open>\<^verbatim>\<open>for (const itemId of items) { message += `\n  - ${itemName}` }\<close>\<close>

definition item_lines :: "mud_world \<Rightarrow> string list \<Rightarrow> string" where
  "item_lines w items =
     concat (map (\<lambda>itemId. newline @ ''  - '' @ show_nullable (getItemName w itemId)) items)"

definition LookCommand_execute :: "mud_world \<Rightarrow> string \<Rightarrow> string list \<Rightarrow> command_result \<times> mud_world" where
  "LookCommand_execute w playerId args =
     (let roomId = getPlayerLocation w playerId
      in if js_not roomId then (failure ''You are nowhere!'', w)
         else
           (let roomName = getRoomName w (the roomId);
                roomDesc = getRoomDescription w (the roomId);
                exits = getRoomExits w (the roomId);
                items = getRoomItems w (the roomId);
                m1 = newline @ show_nullable roomName @ newline @
                     replicate (case roomName of None \<Rightarrow> 0 | Some n \<Rightarrow> length n) (CHR ''='') @
                     newline @ show_nullable roomDesc @ newline;
                m2 = (if length exits > 0
                      then m1 @ newline @ ''Exits: '' @ join '', '' (map (\<lambda>(d, t). direction_name d) exits)
                      else m1 @ newline @ ''There are no obvious exits.'');
                m3 = (if length items > 0
                      then m2 @ newline @ newline @ ''You see:'' @ item_lines w items
                      else m2)
            in (succeeded m3, w)))"

definition moveInDirection :: "mud_world \<Rightarrow> string \<Rightarrow> exit_direction \<Rightarrow> command_result \<times> mud_world" where
  "moveInDirection w playerId direction =
     (let currentRoomId = getPlayerLocation w playerId
      in if js_not currentRoomId then (failure ''You are nowhere!'', w)
         else
           (let exits = getRoomExits w (the currentRoomId);
                targetRoomId = map_of exits direction
            in if js_not targetRoomId
               then (failure (''You can't go '' @ direction_name direction @ '' from here.''), w)
               else
                 (let w' = movePlayer playerId (the targetRoomId) w;
                      lookResult = fst (LookCommand_execute w' playerId [])
                  in (succeeded (''You go '' @ direction_name direction @ ''.'' @ newline @
                                 message lookResult), w'))))"

text \<open>
  The table \<^verbatim>\<open>directionMap\<close> of \<^verbatim>\<open>GoCommand\<close>. It is an object literal, so
  \<^verbatim>\<open>directionMap[direction]\<close> also finds the two lower-case keys every object inherits; their
  values are objects, which no exit is stored under, and \<^verbatim>\<open>moveInDirection\<close> answers with
  the value printed in its message. (Without a current room the first check of
  \<^verbatim>\<open>GoCommand\<close> has already answered.)
\<close>

definition inherited_keys :: "(string \<times> string) list" where
  "inherited_keys =
     [(''constructor'', ''function Object() { [native code] }''),
      (''__proto__'', ''[object Object]'')]"

definition directionMap :: "(string \<times> exit_direction) list" where
  "directionMap =
     [(''n'', north), (''s'', south), (''e'', east), (''w'', west), (''u'', up), (''d'', down),
      (''north'', north), (''south'', south), (''east'', east), (''west'', west),
      (''up'', up), (''down'', down)]"

definition GoCommand_execute :: "mud_world \<Rightarrow> string \<Rightarrow> string list \<Rightarrow> command_result \<times> mud_world" where
  "GoCommand_execute w playerId args =
     (let currentRoomId = getPlayerLocation w playerId
      in if js_not currentRoomId then (failure ''You are nowhere!'', w)
         else if length args = 0
         then (failure ''Go where? Please specify a direction (north, south, east, west, up, down).'', w)
         else
           (let direction = toLowerCase (hd args)
            in case map_of directionMap direction of
                 None \<Rightarrow>
                   (case map_of inherited_keys direction of
                      None \<Rightarrow>
                        (failure (''Invalid direction: '' @ direction @
                                  ''. Use north, south, east, west, up, or down.''), w)
                    | Some shown \<Rightarrow> (failure (''You can't go '' @ shown @ '' from here.''), w))
               | Some fullDirection \<Rightarrow> moveInDirection w playerId fullDirection))"

text \<open>
  The search loop of \<^verbatim>\<open>take\<close> and \<^verbatim>\<open>drop\<close>: the first ID of the list whose item name,
  in lower case, includes the search text; \<^verbatim>\<open>null\<close> if there is none.
\<close>

definition name_matches :: "mud_world \<Rightarrow> string \<Rightarrow> string \<Rightarrow> bool" where
  "name_matches w itemNameSearch itemId =
     (case getItemName w itemId of
        None \<Rightarrow> False
      | Some itemName \<Rightarrow> js_includes (toLowerCase itemName) itemNameSearch)"

fun find_item :: "mud_world \<Rightarrow> string \<Rightarrow> string list \<Rightarrow> string option" where
  "find_item w itemNameSearch [] = None"
| "find_item w itemNameSearch (itemId # items) =
     (if name_matches w itemNameSearch itemId then Some itemId
      else find_item w itemNameSearch items)"

definition TakeCommand_execute :: "mud_world \<Rightarrow> string \<Rightarrow> string list \<Rightarrow> command_result \<times> mud_world" where
  \<open>TakeCommand_execute w playerId args =
     (if length args = 0 then (failure ''Take what? Please specify an item.'', w)
      else
        (let itemNameSearch = toLowerCase (join '' '' args);
             roomId = getPlayerLocation w playerId
         in if js_not roomId then (failure ''You are nowhere!'', w)
            else
              (let items = getRoomItems w (the roomId);
                   foundItemId = find_item w itemNameSearch items
               in if js_not foundItemId
                  then (failure (''There is no "'' @ join '' '' args @ ''" here.''), w)
                  else if \<not> isItemPortable w (the foundItemId)
                  then (failure ''You can't take that.'', w)
                  else
                    (let itemName = getItemName w (the foundItemId);
                         w' = addToInventory playerId (the foundItemId) w
                     in (succeeded (''You take the '' @ show_nullable itemName @ ''.''), w')))))\<close>

definition DropCommand_execute :: "mud_world \<Rightarrow> string \<Rightarrow> string list \<Rightarrow> command_result \<times> mud_world" where
  \<open>DropCommand_execute w playerId args =
     (if length args = 0 then (failure ''Drop what? Please specify an item.'', w)
      else
        (let itemNameSearch = toLowerCase (join '' '' args);
             inventory = getPlayerInventory w playerId;
             foundItemId = find_item w itemNameSearch inventory
         in if js_not foundItemId
            then (failure (''You don't have "'' @ join '' '' args @ ''" in your inventory.''), w)
            else
              (let itemName = getItemName w (the foundItemId);
                   w' = dropItem playerId (the foundItemId) w
               in (succeeded (''You drop the '' @ show_nullable itemName @ ''.''), w'))))\<close>

definition InventoryCommand_execute :: "mud_world \<Rightarrow> string \<Rightarrow> string list \<Rightarrow> command_result \<times> mud_world" where
  "InventoryCommand_execute w playerId args =
     (let inventory = getPlayerInventory w playerId
      in if length inventory = 0 then (succeeded ''Your inventory is empty.'', w)
         else (succeeded (''You are carrying:'' @ item_lines w inventory), w))"

definition help_line :: "command \<Rightarrow> string" where
  "help_line cmd =
     ''  '' @ command_name cmd @
     (if length (command_aliases cmd) > 0 then '' ('' @ join '', '' (command_aliases cmd) @ '')'' else []) @
     '' - '' @ command_description cmd @ newline"

definition HelpCommand_execute :: "registry \<Rightarrow> mud_world \<Rightarrow> string \<Rightarrow> string list \<Rightarrow> command_result \<times> mud_world" where
  "HelpCommand_execute commands w playerId args =
     (succeeded (''Available commands:'' @ newline @ concat (map help_line (getCommands commands))), w)"

text \<open>
  \<^verbatim>\<open>command.execute(world, playerId, args)\<close>, by the class of the command. The help
  command holds the processor it was built for, here the registry it is run from.
\<close>

fun execute :: "registry \<Rightarrow> command \<Rightarrow> mud_world \<Rightarrow> string \<Rightarrow> string list \<Rightarrow> command_result \<times> mud_world" where
  "execute commands LookCommand w playerId args = LookCommand_execute w playerId args"
| "execute commands GoCommand w playerId args = GoCommand_execute w playerId args"
| "execute commands (DirectionCommand name direction) w playerId args = moveInDirection w playerId direction"
| "execute commands TakeCommand w playerId args = TakeCommand_execute w playerId args"
| "execute commands DropCommand w playerId args = DropCommand_execute w playerId args"
| "execute commands InventoryCommand w playerId args = InventoryCommand_execute w playerId args"
| "execute commands HelpCommand w playerId args = HelpCommand_execute commands w playerId args"

definition processCommand :: "registry \<Rightarrow> mud_world \<Rightarrow> string \<Rightarrow> string \<Rightarrow> command_result \<times> mud_world" where
  "processCommand commands w playerId input =
     (let trimmed = js_trim input
      in if trimmed = [] then (failure ''Please enter a command.'', w)
         else
           (let parts = split_ws trimmed;
                commandName = toLowerCase (hd parts);
                args = tl parts
            in case map_of commands commandName of
                 None \<Rightarrow>
                   (failure (''Unknown command: '' @ commandName @
                             ''. Type 'help' for a list of commands.''), w)
               | Some cmd \<Rightarrow> execute commands cmd w playerId args))"

section \<open>Worlds, identifiers and example states\<close>

text \<open>
  The identifier of an entity is the last path segment of its URI, so an identifier that
  reads back as itself is not empty and has no slash. Every identifier \<^const>\<open>generateId\<close>
  hands out is of this kind.
\<close>

definition entity_id :: "string \<Rightarrow> bool" where
  "entity_id eid = (eid \<noteq> [] \<and> CHR ''/'' \<notin> set eid)"

text \<open>The rooms of a world: the identifiers that \<^const>\<open>createRoom\<close> typed as rooms.\<close>

definition is_room :: "mud_world \<Rightarrow> string \<Rightarrow> bool" where
  "is_room w roomId = has (entityUri roomId) rdfTypes_type mudVocab_Room None (datastore w)"

text \<open>
  The states a \<^verbatim>\<open>MudWorld\<close> object can be in: the new world, and what the public methods
  that change the world make of a state, whatever their arguments.
\<close>

inductive reachable :: "mud_world \<Rightarrow> bool" where
  new_world: "reachable MudWorld_new"
| create_room: "reachable w \<Longrightarrow> reachable (snd (createRoom name description w))"
| connect_rooms: "reachable w \<Longrightarrow> reachable (connectRooms fromRoomId direction toRoomId w)"
| create_item: "reachable w \<Longrightarrow> reachable (snd (createItem name description portable w))"
| place_item: "reachable w \<Longrightarrow> reachable (placeItem itemId roomId w)"
| create_player: "reachable w \<Longrightarrow> reachable (snd (createPlayer name startingRoomId w))"
| move_player: "reachable w \<Longrightarrow> reachable (movePlayer playerId roomId w)"
| add_to_inventory: "reachable w \<Longrightarrow> reachable (addToInventory playerId itemId w)"
| remove_from_inventory: "reachable w \<Longrightarrow> reachable (removeFromInventory playerId itemId w)"
| drop_item: "reachable w \<Longrightarrow> reachable (dropItem playerId itemId w)"

code_pred reachable .

text \<open>The identifier read off a term, as \<^const>\<open>getRoomItems\<close> and \<^const>\<open>getPlayerInventory\<close> do.\<close>

definition id_of :: "rdf_term \<Rightarrow> string" where
  "id_of node = or_empty (last_segment (term_value node))"

text \<open>
  A room holds an item in the sense of the entity model when the pair of statements is
  there: the item's location statement points to the room, and every containment
  statement of the room that reads as this item names the item by its own URI, in the
  default graph.
\<close>

definition holds_item :: "mud_world \<Rightarrow> string \<Rightarrow> string \<Rightarrow> bool" where
  "holds_item w roomId itemId =
     (entityUri roomId \<in> set (store_objects (entityUri itemId) mudVocab_location w) \<and>
      list_all (\<lambda>q. subject q = entityUri roomId \<and> predicate q = mudVocab_contains \<and>
                     id_of (object q) = itemId \<longrightarrow>
                     object q = entityUri itemId \<and> graph q = DefaultGraph)
        (store (datastore w)))"

text \<open>A world written out: its statements, its prefix table and its counter.\<close>

definition mk_world :: "quad list \<Rightarrow> (string \<times> string option) list \<Rightarrow> nat \<Rightarrow> mud_world" where
  "mk_world st pf n = \<lparr> datastore = \<lparr> store = st, prefixes = pf \<rparr>, entityCounter = n \<rparr>"

text \<open>
  A hall (\<^verbatim>\<open>room-1\<close>) with a key (\<^verbatim>\<open>item-2\<close>, portable) lying in it and two players,
  Ann (\<^verbatim>\<open>player-3\<close>) and Bob (\<^verbatim>\<open>player-4\<close>), standing in it.
\<close>

definition hall_world :: mud_world where
  "hall_world =
     placeItem ''item-2'' ''room-1''
       (snd (createPlayer ''Bob'' ''room-1''
         (snd (createPlayer ''Ann'' ''room-1''
           (snd (createItem ''Key'' ''A key'' True
             (snd (createRoom ''Hall'' ''A hall'' MudWorld_new))))))))"

text \<open>The hall after Ann has picked the key up.\<close>

definition ann_has_key :: mud_world where
  "ann_has_key = addToInventory ''player-3'' ''item-2'' hall_world"

text \<open>
  The hall with a stale second location statement for Ann, left by a \<^verbatim>\<open>placeItem\<close> that was
  handed her identifier.
\<close>

definition stale_world :: mud_world where
  "stale_world = placeItem ''player-3'' ''room-9'' hall_world"

text \<open>
  Ann carrying the key but standing nowhere: her location statement was taken away by a
  \<^verbatim>\<open>removeFromInventory\<close> that was handed the room as the holder and her as the item.
\<close>

definition nowhere_world :: mud_world where
  "nowhere_world = removeFromInventory ''room-1'' ''player-3'' ann_has_key"

text \<open>
  What every statement of a reachable world satisfies: it lies in the default graph, and a
  type statement is about a URI whose identifier reads back as itself.
\<close>

definition wf_quad :: "quad \<Rightarrow> bool" where
  "wf_quad q =
     (graph q = DefaultGraph \<and>
      (predicate q = rdfTypes_type \<longrightarrow> (\<exists>eid. entity_id eid \<and> subject q = entityUri eid)))"

text \<open>A world with one item that cannot be carried (\<^verbatim>\<open>item-1\<close>).\<close>

definition rock_world :: mud_world where
  "rock_world = snd (createItem ''Heavy Rock'' ''Too heavy to move'' False MudWorld_new)"

text \<open>
  A cellar (\<^verbatim>\<open>room-1\<close>) with a chained key (\<^verbatim>\<open>item-2\<close>, not portable) and a brass key
  (\<^verbatim>\<open>item-3\<close>, portable) lying in it, and Ann (\<^verbatim>\<open>player-4\<close>) standing in it.
\<close>

definition two_keys_world :: mud_world where
  "two_keys_world =
     placeItem ''item-3'' ''room-1''
       (placeItem ''item-2'' ''room-1''
         (snd (createPlayer ''Ann'' ''room-1''
           (snd (createItem ''Brass key'' ''A small key'' True
             (snd (createItem ''Chained key'' ''A key on a chain'' False
               (snd (createRoom ''Cellar'' ''A cellar'' MudWorld_new)))))))))"

text \<open>Three rooms; the first is connected to the north with the second.\<close>

definition three_rooms :: mud_world where
  "three_rooms =
     connectRooms ''room-1'' north ''room-2''
       (snd (createRoom ''C'' ''Third room''
         (snd (createRoom ''B'' ''Second room''
           (snd (createRoom ''A'' ''First room'' MudWorld_new))))))"

text \<open>The datastore of the repository's statistics test: three statements, none with a graph.\<close>

definition stats_store :: rdf_datastore where
  "stats_store =
     addTriple (createNamedNode ''http://example.org/person2'')
         (NamedNode ''http://xmlns.com/foaf/0.1/name'') (createLiteral ''Bob'') None
       (addTriple (createNamedNode ''http://example.org/person1'')
           (createNamedNode ''http://example.org/age'')
           (createTypedLiteral ''30'' ''http://www.w3.org/2001/XMLSchema#integer'') None
         (addTriple (createNamedNode ''http://example.org/person1'')
             (NamedNode ''http://xmlns.com/foaf/0.1/name'') (createLiteral ''Alice'') None
           (RDFDatastore_new [])))"

text \<open>
  The Turtle text of the repository's parsing test, one prefix declaration and one
  statement, and two runs of a parser: one that reaches the end of that text and reports
  its prefix, and one that breaks off with a syntax error after a first statement.
\<close>

definition test_turtle :: string where
  \<open>test_turtle =
     ''@prefix foaf: <http://xmlns.com/foaf/0.1/> . <http://example.org/person2> foaf:name "Bob" .''\<close>

definition alice_quad :: quad where
  "alice_quad = Quad (NamedNode ''http://example.org/person1'')
     (NamedNode ''http://xmlns.com/foaf/0.1/name'') (createLiteral ''Alice'') DefaultGraph"

definition bob_quad :: quad where
  "bob_quad = Quad (NamedNode ''http://example.org/person2'')
     (NamedNode ''http://xmlns.com/foaf/0.1/name'') (createLiteral ''Bob'') DefaultGraph"

definition broken_parser :: n3_parser where
  "broken_parser data format = [ParseQuad alice_quad, ParseError ''Unexpected token on line 2.'']"

definition good_parser :: n3_parser where
  "good_parser data format =
     [ParseQuad bob_quad, ParseEnd (Some [(''foaf'', ''http://xmlns.com/foaf/0.1/'')])]"

section \<open>Paths and identifiers\<close>

lemma js_split_nonempty: "js_split c s \<noteq> []"
  by (induction s) (auto split: list.splits)

lemma js_split_no_separator: "c \<notin> set s \<Longrightarrow> js_split c s = [s]"
  by (induction s) auto

lemma js_split_at_separator: "js_split c (xs @ c # s) = js_split c xs @ js_split c s"
proof (induction xs)
  case Nil
  show ?case by simp
next
  case (Cons x xs)
  obtain w ws where w: "js_split c xs = w # ws"
    using js_split_nonempty [of c xs] by (cases "js_split c xs") auto
  with Cons show ?case by simp
qed

lemma js_pop_eq: "js_pop xs = (if xs = [] then None else Some (last xs))"
  by (cases xs) auto

lemma last_segment_after_slash:
  "CHR ''/'' \<notin> set s \<Longrightarrow> last_segment (xs @ CHR ''/'' # s) = Some s"
  by (simp add: last_segment_def js_split_at_separator js_split_no_separator js_pop_eq)

lemma entityUri_inject [simp]: "entityUri a = entityUri b \<longleftrightarrow> a = b"
  by (simp add: entityUri_def createNamedNode_def)

lemma last_segment_entityUri:
  assumes "CHR ''/'' \<notin> set eid"
  shows "last_segment (term_value (entityUri eid)) = Some eid"
proof -
  from assms have "last_segment (''http://example.org/game'' @ CHR ''/'' # eid) = Some eid"
    by (rule last_segment_after_slash)
  then show ?thesis by (simp add: entityUri_def createNamedNode_def)
qed

lemma id_of_entityUri: "CHR ''/'' \<notin> set eid \<Longrightarrow> id_of (entityUri eid) = eid"
  by (simp add: id_of_def last_segment_entityUri)

lemma digit_char_no_slash: "d < 10 \<Longrightarrow> digit_char d \<noteq> CHR ''/''"
proof -
  assume "d < 10"
  then have "d \<in> {0, 1, 2, 3, 4, 5, 6, 7, 8, 9}" by auto
  then show ?thesis by (auto simp: digit_char_def)
qed

lemma nat_toString_no_slash: "CHR ''/'' \<notin> set (nat_toString n)"
proof (induction n rule: nat_toString.induct)
  case (1 n)
  show ?case
  proof (cases "n < 10")
    case True
    then show ?thesis
      using digit_char_no_slash [of n] by (subst nat_toString.simps) auto
  next
    case False
    have "n mod 10 < 10" by simp
    then have "digit_char (n mod 10) \<noteq> CHR ''/''" by (rule digit_char_no_slash)
    with False 1 show ?thesis by (subst nat_toString.simps) auto
  qed
qed

lemma direction_name_inject [simp]: "direction_name d = direction_name d' \<longleftrightarrow> d = d'"
  by (cases d; cases d'; simp)

lemma mudVocab_exit_inject [simp]: "mudVocab_exit d = mudVocab_exit d' \<longleftrightarrow> d = d'"
  by (simp add: mudVocab_exit_def mudTerm_def createNamedNode_def)

lemmas vocab_defs = mudVocab_Room_def mudVocab_Item_def mudVocab_Player_def mudVocab_name_def
  mudVocab_description_def mudVocab_location_def mudVocab_contains_def mudVocab_portable_def
  mudVocab_inventory_def mudVocab_exit_def mudTerm_def MUD_NS_def createNamedNode_def
  rdfTypes_type_def entityUri_def createLiteral_def createBooleanLiteral_def createTypedLiteral_def
  bool_toString_def xsd_string_def

lemma vocabulary_distinct [simp]:
  "mudVocab_location \<noteq> mudVocab_contains" "mudVocab_contains \<noteq> mudVocab_location"
  "mudVocab_location \<noteq> mudVocab_inventory" "mudVocab_inventory \<noteq> mudVocab_location"
  "mudVocab_contains \<noteq> mudVocab_inventory" "mudVocab_inventory \<noteq> mudVocab_contains"
  "rdfTypes_type \<noteq> mudVocab_location" "rdfTypes_type \<noteq> mudVocab_contains"
  "rdfTypes_type \<noteq> mudVocab_inventory" "rdfTypes_type \<noteq> mudVocab_name"
  "rdfTypes_type \<noteq> mudVocab_description" "rdfTypes_type \<noteq> mudVocab_portable"
  "rdfTypes_type \<noteq> mudVocab_exit d"
  by (simp_all add: vocab_defs)

section \<open>The store under the world's operations\<close>

lemma n3_addQuad_twice: "n3_addQuad q (n3_addQuad q st) = n3_addQuad q st"
  by (simp add: n3_addQuad_def)

lemma n3_has_addQuad: "n3_has q (n3_addQuad q st)"
  by (simp add: n3_addQuad_def n3_has_def)

lemma n3_has_removeQuad: "\<not> n3_has q (n3_removeQuad q st)"
  by (simp add: n3_removeQuad_def n3_has_def)

lemma set_n3_addQuad: "set (n3_addQuad q st) = insert q (set st)"
  by (auto simp: n3_addQuad_def)

lemma set_n3_removeQuad: "set (n3_removeQuad q st) = set st - {q}"
  by (auto simp: n3_removeQuad_def)

lemma set_n3_addQuads: "set (n3_addQuads qs st) = set st \<union> set qs"
  unfolding n3_addQuads_def
  by (induction qs arbitrary: st) (auto simp: n3_addQuad_def)

lemma store_objects_eq:
  "store_objects s p w =
     map object (filter (\<lambda>q. s = subject q \<and> p = predicate q) (store (datastore w)))"
  by (simp add: store_objects_def getObjects_def match_def n3_getQuads_def quad_matches_def
      cong: filter_cong)

lemma store_add_store [simp]:
  "store (datastore (store_add s p ob w)) =
     n3_addQuad (Quad s p ob DefaultGraph) (store (datastore w))"
  by (simp add: store_add_def addTriple_def)

lemma store_remove_store [simp]:
  "store (datastore (store_remove s p ob w)) =
     n3_removeQuad (Quad s p ob DefaultGraph) (store (datastore w))"
  by (simp add: store_remove_def removeTriple_def)

lemma fold_store_remove_store:
  "store (datastore (fold (\<lambda>x. store_remove s p x) xs w)) =
     filter (\<lambda>q. q \<notin> (\<lambda>x. Quad s p x DefaultGraph) ` set xs) (store (datastore w))"
  by (induction xs arbitrary: w) (auto simp: n3_removeQuad_def intro: filter_cong)

section \<open>Evaluating the operations on a world that is written out\<close>

lemma n3_addQuad_Nil: "n3_addQuad q [] = [q]"
  by (simp add: n3_addQuad_def)

lemma n3_addQuad_Cons:
  "n3_addQuad q (x # xs) = (if x = q then x # xs else x # n3_addQuad q xs)"
  by (auto simp: n3_addQuad_def)

lemma nat_toString_digit: "n < 10 \<Longrightarrow> nat_toString n = [digit_char n]"
  by (simp add: nat_toString.simps)

lemma MudWorld_new_mk:
  "MudWorld_new = mk_world [] (default_prefixes @ [(''mud'', Some MUD_NS)]) 0"
  by (simp add: MudWorld_new_def mk_world_def RDFDatastore_new_def setPrefix_def
      default_prefixes_def n3_addQuads_def)

lemma store_mk [simp]: "store (datastore (mk_world st pf n)) = st"
  by (simp add: mk_world_def)

lemma store_add_mk:
  "store_add s p ob (mk_world st pf n) = mk_world (n3_addQuad (Quad s p ob DefaultGraph) st) pf n"
  by (simp add: store_add_def mk_world_def addTriple_def)

lemma store_remove_mk:
  "store_remove s p ob (mk_world st pf n) = mk_world (removeAll (Quad s p ob DefaultGraph) st) pf n"
  by (simp add: store_remove_def mk_world_def removeTriple_def n3_removeQuad_def
      removeAll_filter_not_eq eq_commute)

lemma store_objects_mk:
  "store_objects s p (mk_world st pf n) =
     map object (filter (\<lambda>q. s = subject q \<and> p = predicate q) st)"
  by (simp add: store_objects_eq)

lemma generateId_mk:
  "generateId t (mk_world st pf n) = (t @ ''-'' @ nat_toString (Suc n), mk_world st pf (Suc n))"
  by (simp add: generateId_def mk_world_def)

lemma createRoom_mk:
  "snd (createRoom name description (mk_world st pf n)) =
     store_add (entityUri (''room-'' @ nat_toString (Suc n))) mudVocab_description (createLiteral description)
      (store_add (entityUri (''room-'' @ nat_toString (Suc n))) mudVocab_name (createLiteral name)
        (store_add (entityUri (''room-'' @ nat_toString (Suc n))) rdfTypes_type mudVocab_Room
          (mk_world st pf (Suc n))))"
  by (simp add: createRoom_def generateId_mk Let_def)

lemma createItem_mk:
  "snd (createItem name description portable (mk_world st pf n)) =
     store_add (entityUri (''item-'' @ nat_toString (Suc n))) mudVocab_portable (createBooleanLiteral portable)
      (store_add (entityUri (''item-'' @ nat_toString (Suc n))) mudVocab_description (createLiteral description)
        (store_add (entityUri (''item-'' @ nat_toString (Suc n))) mudVocab_name (createLiteral name)
          (store_add (entityUri (''item-'' @ nat_toString (Suc n))) rdfTypes_type mudVocab_Item
            (mk_world st pf (Suc n)))))"
  by (simp add: createItem_def generateId_mk Let_def)

lemma createPlayer_mk:
  "snd (createPlayer name startingRoomId (mk_world st pf n)) =
     store_add (entityUri (''player-'' @ nat_toString (Suc n))) mudVocab_location (entityUri startingRoomId)
      (store_add (entityUri (''player-'' @ nat_toString (Suc n))) mudVocab_name (createLiteral name)
        (store_add (entityUri (''player-'' @ nat_toString (Suc n))) rdfTypes_type mudVocab_Player
          (mk_world st pf (Suc n))))"
  by (simp add: createPlayer_def generateId_mk Let_def)

lemma placeItem_mk:
  "placeItem itemId roomId (mk_world st pf n) =
     store_add (entityUri roomId) mudVocab_contains (entityUri itemId)
       (store_add (entityUri itemId) mudVocab_location (entityUri roomId) (mk_world st pf n))"
  by (simp add: placeItem_def Let_def)

lemma addToInventory_mk:
  "addToInventory playerId itemId (mk_world st pf n) =
     store_add (entityUri itemId) mudVocab_location (entityUri playerId)
       (store_add (entityUri playerId) mudVocab_inventory (entityUri itemId)
         (fold (\<lambda>location w'.
                  store_remove location mudVocab_contains (entityUri itemId)
                    (store_remove (entityUri itemId) mudVocab_location location w'))
            (store_objects (entityUri itemId) mudVocab_location (mk_world st pf n))
            (mk_world st pf n)))"
  by (simp add: addToInventory_def Let_def)

lemma movePlayer_mk:
  "movePlayer playerId roomId (mk_world st pf n) =
     store_add (entityUri playerId) mudVocab_location (entityUri roomId)
       (fold (\<lambda>oldLocation. store_remove (entityUri playerId) mudVocab_location oldLocation)
          (store_objects (entityUri playerId) mudVocab_location (mk_world st pf n))
          (mk_world st pf n))"
  by (simp add: movePlayer_def Let_def)

lemma connectRooms_mk:
  "connectRooms fromRoomId direction toRoomId (mk_world st pf n) =
     store_add (entityUri fromRoomId) (mudVocab_exit direction) (entityUri toRoomId) (mk_world st pf n)"
  by (simp add: connectRooms_def Let_def)

lemma removeFromInventory_mk:
  "removeFromInventory playerId itemId (mk_world st pf n) =
     store_remove (entityUri itemId) mudVocab_location (entityUri playerId)
       (store_remove (entityUri playerId) mudVocab_inventory (entityUri itemId) (mk_world st pf n))"
  by (simp add: removeFromInventory_def Let_def)

lemmas eval_world = MudWorld_new_mk store_add_mk store_remove_mk store_objects_mk createRoom_mk
  createItem_mk createPlayer_mk placeItem_mk addToInventory_mk movePlayer_mk connectRooms_mk
  removeFromInventory_mk n3_addQuad_Nil n3_addQuad_Cons nat_toString_digit digit_char_def

text \<open>The example worlds, written out.\<close>

lemma hall_world_eq:
  "hall_world = mk_world
     [Quad (entityUri ''room-1'') rdfTypes_type mudVocab_Room DefaultGraph,
      Quad (entityUri ''room-1'') mudVocab_name (createLiteral ''Hall'') DefaultGraph,
      Quad (entityUri ''room-1'') mudVocab_description (createLiteral ''A hall'') DefaultGraph,
      Quad (entityUri ''item-2'') rdfTypes_type mudVocab_Item DefaultGraph,
      Quad (entityUri ''item-2'') mudVocab_name (createLiteral ''Key'') DefaultGraph,
      Quad (entityUri ''item-2'') mudVocab_description (createLiteral ''A key'') DefaultGraph,
      Quad (entityUri ''item-2'') mudVocab_portable (createBooleanLiteral True) DefaultGraph,
      Quad (entityUri ''player-3'') rdfTypes_type mudVocab_Player DefaultGraph,
      Quad (entityUri ''player-3'') mudVocab_name (createLiteral ''Ann'') DefaultGraph,
      Quad (entityUri ''player-3'') mudVocab_location (entityUri ''room-1'') DefaultGraph,
      Quad (entityUri ''player-4'') rdfTypes_type mudVocab_Player DefaultGraph,
      Quad (entityUri ''player-4'') mudVocab_name (createLiteral ''Bob'') DefaultGraph,
      Quad (entityUri ''player-4'') mudVocab_location (entityUri ''room-1'') DefaultGraph,
      Quad (entityUri ''item-2'') mudVocab_location (entityUri ''room-1'') DefaultGraph,
      Quad (entityUri ''room-1'') mudVocab_contains (entityUri ''item-2'') DefaultGraph]
     (default_prefixes @ [(''mud'', Some MUD_NS)]) 4"
  by (simp add: hall_world_def eval_world vocab_defs eval_nat_numeral)

lemma ann_has_key_eq:
  "ann_has_key = mk_world
     [Quad (entityUri ''room-1'') rdfTypes_type mudVocab_Room DefaultGraph,
      Quad (entityUri ''room-1'') mudVocab_name (createLiteral ''Hall'') DefaultGraph,
      Quad (entityUri ''room-1'') mudVocab_description (createLiteral ''A hall'') DefaultGraph,
      Quad (entityUri ''item-2'') rdfTypes_type mudVocab_Item DefaultGraph,
      Quad (entityUri ''item-2'') mudVocab_name (createLiteral ''Key'') DefaultGraph,
      Quad (entityUri ''item-2'') mudVocab_description (createLiteral ''A key'') DefaultGraph,
      Quad (entityUri ''item-2'') mudVocab_portable (createBooleanLiteral True) DefaultGraph,
      Quad (entityUri ''player-3'') rdfTypes_type mudVocab_Player DefaultGraph,
      Quad (entityUri ''player-3'') mudVocab_name (createLiteral ''Ann'') DefaultGraph,
      Quad (entityUri ''player-3'') mudVocab_location (entityUri ''room-1'') DefaultGraph,
      Quad (entityUri ''player-4'') rdfTypes_type mudVocab_Player DefaultGraph,
      Quad (entityUri ''player-4'') mudVocab_name (createLiteral ''Bob'') DefaultGraph,
      Quad (entityUri ''player-4'') mudVocab_location (entityUri ''room-1'') DefaultGraph,
      Quad (entityUri ''player-3'') mudVocab_inventory (entityUri ''item-2'') DefaultGraph,
      Quad (entityUri ''item-2'') mudVocab_location (entityUri ''player-3'') DefaultGraph]
     (default_prefixes @ [(''mud'', Some MUD_NS)]) 4"
  by (simp add: ann_has_key_def hall_world_eq eval_world vocab_defs eval_nat_numeral)


section \<open>The store facade\<close>

text \<open>
  C9. Adding a statement is idempotent: a second \<^verbatim>\<open>addTriple\<close> of the same statement
  leaves the datastore, and so its \<^verbatim>\<open>size()\<close>, as the first one left it; \<^verbatim>\<open>has\<close> is
  true right after \<^verbatim>\<open>addTriple\<close> and false right after \<^verbatim>\<open>removeTriple\<close>.
\<close>

theorem addTriple_idempotent_has:
  "addTriple s p ob g (addTriple s p ob g ds) = addTriple s p ob g ds \<and>
   size_ds (addTriple s p ob g (addTriple s p ob g ds)) = size_ds (addTriple s p ob g ds) \<and>
   has s p ob g (addTriple s p ob g ds) \<and>
   \<not> has s p ob g (removeTriple s p ob g ds)"
  by (simp add: addTriple_def removeTriple_def has_def size_ds_def
      n3_addQuad_twice n3_has_addQuad n3_has_removeQuad)

text \<open>
  C4. On the datastore of the repository's own statistics test (three statements about two
  subjects with two predicates, none with a graph) \<^verbatim>\<open>getStats\<close> reports three
  statements and two subjects, but three predicates and one graph: the default graph is
  counted, and a predicate is counted once for every subject it occurs with.
\<close>

theorem getStats_counts_default_graph:
  "getStats stats_store =
     \<lparr> tripleCount = 3, subjectCount = 2, predicateCount = 3, graphCount = 1 \<rparr>"
  by (simp add: getStats_def stats_store_def getSubjects_def getPredicates_def
      iter_subject_def iter_predicate_def set_add_def addTriple_def RDFDatastore_new_def
      n3_addQuads_def n3_addQuad_Nil n3_addQuad_Cons n3_size_def createNamedNode_def
      createLiteral_def createTypedLiteral_def xsd_string_def)

text \<open>What a run of the parser leaves behind.\<close>

lemma fold_parse_quads:
  "list_all is_ParseQuad evs \<Longrightarrow>
   fold parse_callback evs r = r\<lparr> quads := quads r @ event_quads evs \<rparr>"
proof (induction evs arbitrary: r)
  case Nil
  show ?case by simp
next
  case (Cons ev evs)
  then obtain q where "ev = ParseQuad q" by (cases ev) auto
  with Cons show ?case by simp
qed

lemma event_quads_snoc_other:
  "\<not> is_ParseQuad ev \<Longrightarrow> event_quads (evs @ [ev]) = event_quads evs"
  by (induction evs rule: event_quads.induct) (cases ev; simp)+

lemma parse_run_fails:
  assumes "run_fails evs e"
  shows "fold parse_callback evs \<lparr> quads = [], target = ds, promise = Pending \<rparr> =
           \<lparr> quads = event_quads evs, target = ds, promise = Rejected e \<rparr>"
proof -
  from assms have evs: "evs = butlast evs @ [ParseError e]"
    and qs: "list_all is_ParseQuad (butlast evs)"
    by (auto simp: run_fails_def dest: append_butlast_last_id [symmetric])
  have "event_quads evs = event_quads (butlast evs)"
    by (subst evs) (simp add: event_quads_snoc_other)
  moreover have "fold parse_callback evs \<lparr> quads = [], target = ds, promise = Pending \<rparr> =
      parse_callback (ParseError e)
        (fold parse_callback (butlast evs) \<lparr> quads = [], target = ds, promise = Pending \<rparr>)"
    by (subst evs) simp
  ultimately show ?thesis using qs by (simp add: fold_parse_quads)
qed

lemma parse_run_succeeds:
  assumes "run_succeeds evs pfx"
  shows "fold parse_callback evs \<lparr> quads = [], target = ds, promise = Pending \<rparr> =
           \<lparr> quads = event_quads evs,
             target = merge_prefixes pfx (addQuads (event_quads evs) ds),
             promise = Resolved \<rparr>"
proof -
  from assms have evs: "evs = butlast evs @ [ParseEnd pfx]"
    and qs: "list_all is_ParseQuad (butlast evs)"
    by (auto simp: run_succeeds_def dest: append_butlast_last_id [symmetric])
  have "event_quads evs = event_quads (butlast evs)"
    by (subst evs) (simp add: event_quads_snoc_other)
  moreover have "fold parse_callback evs \<lparr> quads = [], target = ds, promise = Pending \<rparr> =
      parse_callback (ParseEnd pfx)
        (fold parse_callback (butlast evs) \<lparr> quads = [], target = ds, promise = Pending \<rparr>)"
    by (subst evs) simp
  ultimately show ?thesis using qs by (simp add: fold_parse_quads)
qed

lemma merge_prefixes_store: "store (merge_prefixes pfx ds) = store ds"
proof (cases pfx)
  case None
  then show ?thesis by (simp add: merge_prefixes_def)
next
  case (Some entries)
  have "store (fold (\<lambda>(prefix, uri) ds. setPrefix prefix (string_value uri) ds) entries ds) = store ds"
    by (induction entries arbitrary: ds) (auto simp: setPrefix_def)
  with Some show ?thesis by (simp add: merge_prefixes_def)
qed

lemma map_of_map_set: "map_of (map_set k v es) k' = (if k' = k then Some v else map_of es k')"
  by (induction es) auto

text \<open>A prefix that the parser reports ends up in the table with the value \<^verbatim>\<open>undefined\<close>.\<close>

lemma merge_prefixes_lookup:
  "map_of (prefixes (merge_prefixes (Some entries) ds)) k =
     (if k \<in> fst ` set entries then Some None else map_of (prefixes ds) k)"
proof -
  have "map_of (prefixes (fold (\<lambda>(prefix, uri) ds. setPrefix prefix (string_value uri) ds) entries ds)) k =
     (if k \<in> fst ` set entries then Some None else map_of (prefixes ds) k)"
  proof (induction entries arbitrary: ds)
    case Nil
    show ?case by simp
  next
    case (Cons entry entries)
    obtain p u where entry: "entry = (p, u)" by (cases entry)
    have "prefixes (setPrefix p None ds) = map_set p None (prefixes ds)"
      by (simp add: setPrefix_def)
    with Cons.IH [of "setPrefix p None ds"] show ?case
      by (simp add: entry map_of_map_set)
  qed
  then show ?thesis by (simp add: merge_prefixes_def)
qed

text \<open>
  A run that fails (statements, then a syntax error) rejects the promise with that error
  and leaves the datastore, statements and prefix table, exactly as it was: the statements
  decoded before the error are in the local array only.
\<close>

lemma parseFromString_failure_unchanged:
  assumes "run_fails (parser data format) e"
  shows "parseFromString parser data format ds = (Rejected e, ds)"
  using assms by (simp add: parseFromString_def parse_run_fails)

lemma parseFromString_failure_example:
  "parseFromString broken_parser ''<a> <b> .'' ''turtle'' stats_store =
     (Rejected ''Unexpected token on line 2.'', stats_store)"
proof -
  have "run_fails (broken_parser ''<a> <b> .'' ''turtle'') ''Unexpected token on line 2.''"
    by (simp add: run_fails_def broken_parser_def)
  then show ?thesis by (rule parseFromString_failure_unchanged)
qed

text \<open>
  A run that succeeds (statements, then the end of the text) resolves the promise and
  leaves every decoded statement in the store next to the statements that were there;
  every prefix the parser reports is entered in the prefix table, with the value
  \<^verbatim>\<open>undefined\<close>, and the other prefixes keep their values.
\<close>

lemma parseFromString_success:
  assumes "run_succeeds (parser data format) pfx"
  shows "fst (parseFromString parser data format ds) = Resolved"
    and "set (store (snd (parseFromString parser data format ds))) =
           set (store ds) \<union> set (event_quads (parser data format))"
    and "pfx = Some entries \<Longrightarrow>
         map_of (prefixes (snd (parseFromString parser data format ds))) k =
           (if k \<in> fst ` set entries then Some None else map_of (prefixes ds) k)"
proof -
  from assms have run: "parseFromString parser data format ds =
      (Resolved, merge_prefixes pfx (addQuads (event_quads (parser data format)) ds))"
    by (simp add: parseFromString_def parse_run_succeeds)
  from run show "fst (parseFromString parser data format ds) = Resolved" by simp
  from run show "set (store (snd (parseFromString parser data format ds))) =
      set (store ds) \<union> set (event_quads (parser data format))"
    by (simp add: merge_prefixes_store addQuads_def set_n3_addQuads)
  from run show "map_of (prefixes (snd (parseFromString parser data format ds))) k =
      (if k \<in> fst ` set entries then Some None else map_of (prefixes ds) k)"
    if "pfx = Some entries"
    using that by (simp add: merge_prefixes_lookup addQuads_def)
qed

text \<open>
  C2. Parsing the Turtle text of the repository's parsing test into a new datastore
  succeeds: the promise resolves and the decoded statement is in the store. The prefix
  \<^verbatim>\<open>foaf\<close> that the text declares is entered in the prefix table, but with the value
  \<^verbatim>\<open>undefined\<close> in place of its namespace \<^verbatim>\<open>http://xmlns.com/foaf/0.1/\<close>: the declared
  prefix is not merged into the store.
\<close>

theorem parseFromString_stores_undefined_prefix:
  "parseFromString good_parser test_turtle ''turtle'' (RDFDatastore_new []) =
     (Resolved,
      \<lparr> store = [bob_quad], prefixes = default_prefixes @ [(''foaf'', None)] \<rparr>) \<and>
   map_of (getPrefixes (snd (parseFromString good_parser test_turtle ''turtle'' (RDFDatastore_new []))))
     ''foaf'' = Some None"
  by (simp add: parseFromString_def good_parser_def Let_def merge_prefixes_def setPrefix_def
      addQuads_def RDFDatastore_new_def n3_addQuads_def n3_addQuad_Nil default_prefixes_def
      getPrefixes_def)


section \<open>The entity model\<close>

subsection \<open>Reachable worlds\<close>

lemma generated_entity_id:
  "CHR ''/'' \<notin> set kind \<Longrightarrow> entity_id (kind @ ''-'' @ nat_toString n)"
  by (simp add: entity_id_def nat_toString_no_slash)

lemma wf_quad_plain:
  "p \<noteq> rdfTypes_type \<Longrightarrow> wf_quad (Quad s p ob DefaultGraph)"
  by (simp add: wf_quad_def)

lemma wf_quad_type:
  "entity_id eid \<Longrightarrow> wf_quad (Quad (entityUri eid) rdfTypes_type ob DefaultGraph)"
  by (auto simp: wf_quad_def)

lemma store_add_wf:
  assumes "\<forall>q \<in> set (store (datastore w)). wf_quad q" and "wf_quad (Quad s p ob DefaultGraph)"
  shows "\<forall>q \<in> set (store (datastore (store_add s p ob w))). wf_quad q"
  using assms by (auto simp: set_n3_addQuad)

lemma store_remove_wf:
  assumes "\<forall>q \<in> set (store (datastore w)). wf_quad q"
  shows "\<forall>q \<in> set (store (datastore (store_remove s p ob w))). wf_quad q"
  using assms by (auto simp: set_n3_removeQuad)

lemma fold_remove_wf:
  assumes "\<forall>q \<in> set (store (datastore w)). wf_quad q"
  shows "\<forall>q \<in> set (store (datastore (fold (\<lambda>x w'. store_remove (s2 x) p2 (o2 x)
            (store_remove (s1 x) p1 (o1 x) w')) xs w))). wf_quad q"
  using assms
proof (induction xs arbitrary: w)
  case Nil
  then show ?case by simp
next
  case (Cons x xs)
  have step: "\<forall>q \<in> set (store (datastore (store_remove (s2 x) p2 (o2 x)
      (store_remove (s1 x) p1 (o1 x) w)))). wf_quad q"
    using Cons.prems by (intro store_remove_wf)
  from Cons.IH [OF step] show ?case by simp
qed

lemma generateId_store [simp]: "store (datastore (snd (generateId kind w))) = store (datastore w)"
  by (simp add: generateId_def Let_def)

lemma generateId_fst: "fst (generateId kind w) = kind @ ''-'' @ nat_toString (entityCounter w + 1)"
  by (simp add: generateId_def Let_def)

lemma createRoom_wf:
  assumes "\<forall>q \<in> set (store (datastore w)). wf_quad q"
  shows "\<forall>q \<in> set (store (datastore (snd (createRoom name description w)))). wf_quad q"
proof -
  have eid: "entity_id (fst (generateId ''room'' w))"
    unfolding generateId_fst by (rule generated_entity_id) simp
  have "\<forall>q \<in> set (store (datastore (snd (generateId ''room'' w)))). wf_quad q"
    using assms by simp
  then show ?thesis
    unfolding createRoom_def Let_def split_beta snd_conv
    by (intro store_add_wf wf_quad_type wf_quad_plain eid) (simp_all add: vocabulary_distinct [symmetric] del: vocabulary_distinct)
qed

lemma createItem_wf:
  assumes "\<forall>q \<in> set (store (datastore w)). wf_quad q"
  shows "\<forall>q \<in> set (store (datastore (snd (createItem name description portable w)))). wf_quad q"
proof -
  have eid: "entity_id (fst (generateId ''item'' w))"
    unfolding generateId_fst by (rule generated_entity_id) simp
  have "\<forall>q \<in> set (store (datastore (snd (generateId ''item'' w)))). wf_quad q"
    using assms by simp
  then show ?thesis
    unfolding createItem_def Let_def split_beta snd_conv
    by (intro store_add_wf wf_quad_type wf_quad_plain eid) (simp_all add: vocabulary_distinct [symmetric] del: vocabulary_distinct)
qed

lemma createPlayer_wf:
  assumes "\<forall>q \<in> set (store (datastore w)). wf_quad q"
  shows "\<forall>q \<in> set (store (datastore (snd (createPlayer name startingRoomId w)))). wf_quad q"
proof -
  have eid: "entity_id (fst (generateId ''player'' w))"
    unfolding generateId_fst by (rule generated_entity_id) simp
  have "\<forall>q \<in> set (store (datastore (snd (generateId ''player'' w)))). wf_quad q"
    using assms by simp
  then show ?thesis
    unfolding createPlayer_def Let_def split_beta snd_conv
    by (intro store_add_wf wf_quad_type wf_quad_plain eid) (simp_all add: vocabulary_distinct [symmetric] del: vocabulary_distinct)
qed

lemma placeItem_wf:
  assumes "\<forall>q \<in> set (store (datastore w)). wf_quad q"
  shows "\<forall>q \<in> set (store (datastore (placeItem itemId roomId w))). wf_quad q"
  unfolding placeItem_def Let_def
  by (intro store_add_wf wf_quad_plain assms) (simp_all add: vocabulary_distinct [symmetric] del: vocabulary_distinct)

lemma removeFromInventory_wf:
  assumes "\<forall>q \<in> set (store (datastore w)). wf_quad q"
  shows "\<forall>q \<in> set (store (datastore (removeFromInventory playerId itemId w))). wf_quad q"
  unfolding removeFromInventory_def Let_def
  by (intro store_remove_wf assms)

lemma reachable_wf: "reachable w \<Longrightarrow> \<forall>q \<in> set (store (datastore w)). wf_quad q"
proof (induction rule: reachable.induct)
  case new_world
  show ?case by (simp add: MudWorld_new_mk)
next
  case (create_room w name description)
  then show ?case by (intro createRoom_wf)
next
  case (connect_rooms w fromRoomId direction toRoomId)
  then show ?case
    unfolding connectRooms_def Let_def
    by (intro store_add_wf wf_quad_plain) (simp_all add: vocabulary_distinct [symmetric] del: vocabulary_distinct)
next
  case (create_item w name description portable)
  then show ?case by (intro createItem_wf)
next
  case (place_item w itemId roomId)
  then show ?case by (intro placeItem_wf)
next
  case (create_player w name startingRoomId)
  then show ?case by (intro createPlayer_wf)
next
  case (move_player w playerId roomId)
  have "\<forall>q \<in> set (store (datastore (fold (\<lambda>x. store_remove (entityUri playerId) mudVocab_location x)
      (store_objects (entityUri playerId) mudVocab_location w) w))). wf_quad q"
    using move_player.IH by (auto simp: fold_store_remove_store)
  then show ?case
    unfolding movePlayer_def Let_def
    by (intro store_add_wf wf_quad_plain) (simp_all add: vocabulary_distinct [symmetric] del: vocabulary_distinct)
next
  case (add_to_inventory w playerId itemId)
  have "\<forall>q \<in> set (store (datastore (fold (\<lambda>x w'.
      store_remove x mudVocab_contains (entityUri itemId)
        (store_remove (entityUri itemId) mudVocab_location x w'))
      (store_objects (entityUri itemId) mudVocab_location w) w))). wf_quad q"
    using add_to_inventory.IH
    by (rule fold_remove_wf [where ?s2.0 = "\<lambda>x. x" and ?o2.0 = "\<lambda>x. entityUri itemId"
          and ?s1.0 = "\<lambda>x. entityUri itemId" and ?o1.0 = "\<lambda>x. x"])
  then show ?case
    unfolding addToInventory_def Let_def
    by (intro store_add_wf wf_quad_plain) (simp_all add: vocabulary_distinct [symmetric] del: vocabulary_distinct)
next
  case (remove_from_inventory w playerId itemId)
  then show ?case by (intro removeFromInventory_wf)
next
  case (drop_item w playerId itemId)
  then show ?case
    unfolding dropItem_def Let_def
    by (auto intro!: placeItem_wf removeFromInventory_wf simp del: js_not.simps)
qed

text \<open>The identifier \<^const>\<open>createRoom\<close> returns is a room of the world it returns.\<close>

lemma created_room_is_room:
  "is_room (snd (createRoom name description w)) (fst (createRoom name description w))"
  by (simp add: is_room_def has_def n3_has_def createRoom_def Let_def split_beta set_n3_addQuad
      vocabulary_distinct [symmetric] del: vocabulary_distinct)

text \<open>The identifier of a room of a reachable world reads back as itself.\<close>

lemma room_entity_id:
  assumes "reachable w" and "is_room w roomId"
  shows "entity_id roomId"
proof -
  from assms(2) have "Quad (entityUri roomId) rdfTypes_type mudVocab_Room DefaultGraph
      \<in> set (store (datastore w))"
    by (simp add: is_room_def has_def n3_has_def)
  with reachable_wf [OF assms(1)]
  have "wf_quad (Quad (entityUri roomId) rdfTypes_type mudVocab_Room DefaultGraph)" by blast
  then show ?thesis by (auto simp: wf_quad_def)
qed


subsection \<open>Getters\<close>

text \<open>
  C3 (as amended). When no statement matches the pattern of the getter, \<^verbatim>\<open>getRoomName\<close>,
  \<^verbatim>\<open>getRoomDescription\<close>, \<^verbatim>\<open>getItemName\<close>, \<^verbatim>\<open>getItemDescription\<close> and
  \<^verbatim>\<open>getPlayerLocation\<close> return \<^verbatim>\<open>null\<close>, which is none of the strings they return
  otherwise; \<^verbatim>\<open>isItemPortable\<close> returns \<^verbatim>\<open>false\<close>.
\<close>

theorem getters_not_found:
  "(store_objects (entityUri eid) mudVocab_name w = [] \<longrightarrow>
      getRoomName w eid = None \<and> getItemName w eid = None) \<and>
   (store_objects (entityUri eid) mudVocab_description w = [] \<longrightarrow>
      getRoomDescription w eid = None \<and> getItemDescription w eid = None) \<and>
   (store_objects (entityUri eid) mudVocab_location w = [] \<longrightarrow>
      getPlayerLocation w eid = None) \<and>
   (store_objects (entityUri eid) mudVocab_portable w = [] \<longrightarrow>
      isItemPortable w eid = False)"
  by (simp add: getRoomName_def getItemName_def getRoomDescription_def getItemDescription_def
      getPlayerLocation_def isItemPortable_def)

theorem getters_not_found_witness:
  "getRoomName MudWorld_new ''room-1'' = None \<and> getItemName MudWorld_new ''room-1'' = None \<and>
   getRoomDescription MudWorld_new ''room-1'' = None \<and>
   getItemDescription MudWorld_new ''room-1'' = None \<and>
   getPlayerLocation MudWorld_new ''room-1'' = None \<and>
   isItemPortable MudWorld_new ''room-1'' = False"
proof -
  have none: "store_objects (entityUri ''room-1'') p MudWorld_new = []" for p
    by (simp add: MudWorld_new_mk store_objects_mk)
  from getters_not_found [of "''room-1''" MudWorld_new] show ?thesis
    by (simp add: none)
qed

text \<open>
  The answer of \<^verbatim>\<open>isItemPortable\<close> for an item that is not known is the answer it gives
  for a known item that cannot be carried: \<^verbatim>\<open>false\<close> is no sentinel.
\<close>

theorem isItemPortable_no_sentinel:
  "store_objects (entityUri ''item-1'') mudVocab_portable MudWorld_new = [] \<and>
   store_objects (entityUri ''item-1'') mudVocab_portable rock_world = [createBooleanLiteral False] \<and>
   isItemPortable MudWorld_new ''item-1'' = isItemPortable rock_world ''item-1''"
  by (simp add: rock_world_def isItemPortable_def eval_world vocab_defs)

subsection \<open>Exits\<close>

lemma exit_entry_other: "d \<noteq> d' \<Longrightarrow> map_of (exit_entry w room d') d = None"
  by (simp add: exit_entry_def split: list.splits)

lemma map_of_exit_entries:
  "map_of (concat (map (exit_entry w room) ds)) d =
     (if d \<in> set ds then map_of (exit_entry w room d) d else None)"
proof (induction ds)
  case Nil
  show ?case by simp
next
  case (Cons d' ds)
  show ?case
  proof (cases "d' = d")
    case True
    then show ?thesis
      by (simp add: Cons.IH map_add_def split: option.splits)
  next
    case False
    then have "map_of (exit_entry w room d') d = None"
      by (simp add: exit_entry_other)
    with False show ?thesis
      by (auto simp: Cons.IH map_add_def)
  qed
qed

lemma exits_get:
  "map_of (getRoomExits w roomId) d =
     (case store_objects (entityUri roomId) (mudVocab_exit d) w of
        [] \<Rightarrow> None
      | t # ts \<Rightarrow> Some (or_empty (last_segment (term_value t))))"
proof -
  have "d \<in> set directions" by (cases d) (simp_all add: directions_def)
  then show ?thesis
    by (simp add: getRoomExits_def map_of_exit_entries exit_entry_def split: list.splits)
qed

lemma connectRooms_store:
  "store (datastore (connectRooms a d b w)) =
     n3_addQuad (Quad (entityUri a) (mudVocab_exit d) (entityUri b) DefaultGraph) (store (datastore w))"
  by (simp add: connectRooms_def)

lemma connectRooms_other_objects:
  "s \<noteq> entityUri a \<or> p \<noteq> mudVocab_exit d \<Longrightarrow>
   store_objects s p (connectRooms a d b w) = store_objects s p w"
  by (auto simp: store_objects_eq connectRooms_store n3_addQuad_def)

lemma connectRooms_first_exit:
  assumes "store_objects (entityUri a) (mudVocab_exit d) w = []"
  shows "store_objects (entityUri a) (mudVocab_exit d) (connectRooms a d b w) = [entityUri b]"
proof -
  from assms have "Quad (entityUri a) (mudVocab_exit d) (entityUri b) DefaultGraph
      \<notin> set (store (datastore w))"
    by (force simp: store_objects_eq filter_empty_conv)
  with assms show ?thesis
    by (simp add: store_objects_eq connectRooms_store n3_addQuad_def)
qed

text \<open>
  C7 (as amended). For rooms A and B of a world, if A has no exit to the north yet, then
  after \<^verbatim>\<open>connectRooms(A, 'north', B)\<close> the map \<^verbatim>\<open>getRoomExits(A)\<close> has the entry
  north to B; and the call leaves the south entry of \<^verbatim>\<open>getRoomExits(B)\<close> as it was, so
  B has an exit south to A only if one was made by a call of its own.
\<close>

theorem connectRooms_one_way:
  assumes "reachable w" and "is_room w b"
    and "store_objects (entityUri a) (mudVocab_exit north) w = []"
  shows "map_of (getRoomExits (connectRooms a north b w) a) north = Some b \<and>
         (north, b) \<in> set (getRoomExits (connectRooms a north b w) a) \<and>
         map_of (getRoomExits (connectRooms a north b w) b) south = map_of (getRoomExits w b) south"
proof -
  from assms(1,2) have "CHR ''/'' \<notin> set b"
    using room_entity_id by (auto simp: entity_id_def)
  with assms(3) have north: "map_of (getRoomExits (connectRooms a north b w) a) north = Some b"
    by (simp add: exits_get connectRooms_first_exit last_segment_entityUri)
  have "store_objects (entityUri b) (mudVocab_exit south) (connectRooms a north b w) =
      store_objects (entityUri b) (mudVocab_exit south) w"
    by (rule connectRooms_other_objects) simp
  then have "map_of (getRoomExits (connectRooms a north b w) b) south = map_of (getRoomExits w b) south"
    by (simp add: exits_get)
  with north show ?thesis by (auto dest: map_of_SomeD)
qed

lemma three_rooms_eq:
  "three_rooms = mk_world
     [Quad (entityUri ''room-1'') rdfTypes_type mudVocab_Room DefaultGraph,
      Quad (entityUri ''room-1'') mudVocab_name (createLiteral ''A'') DefaultGraph,
      Quad (entityUri ''room-1'') mudVocab_description (createLiteral ''First room'') DefaultGraph,
      Quad (entityUri ''room-2'') rdfTypes_type mudVocab_Room DefaultGraph,
      Quad (entityUri ''room-2'') mudVocab_name (createLiteral ''B'') DefaultGraph,
      Quad (entityUri ''room-2'') mudVocab_description (createLiteral ''Second room'') DefaultGraph,
      Quad (entityUri ''room-3'') rdfTypes_type mudVocab_Room DefaultGraph,
      Quad (entityUri ''room-3'') mudVocab_name (createLiteral ''C'') DefaultGraph,
      Quad (entityUri ''room-3'') mudVocab_description (createLiteral ''Third room'') DefaultGraph,
      Quad (entityUri ''room-1'') (mudVocab_exit north) (entityUri ''room-2'') DefaultGraph]
     (default_prefixes @ [(''mud'', Some MUD_NS)]) 3"
  by (simp add: three_rooms_def eval_world vocab_defs eval_nat_numeral)

lemma three_rooms_reachable: "reachable three_rooms"
  unfolding three_rooms_def by (intro reachable.intros)

theorem connectRooms_one_way_witness:
  "map_of (getRoomExits (connectRooms ''room-2'' north ''room-3'' three_rooms) ''room-2'') north =
     Some ''room-3'' \<and>
   (north, ''room-3'') \<in> set (getRoomExits (connectRooms ''room-2'' north ''room-3'' three_rooms) ''room-2'') \<and>
   map_of (getRoomExits (connectRooms ''room-2'' north ''room-3'' three_rooms) ''room-3'') south = None"
proof -
  have room: "is_room three_rooms ''room-3''"
    by (simp add: is_room_def has_def n3_has_def three_rooms_eq)
  have fresh: "store_objects (entityUri ''room-2'') (mudVocab_exit north) three_rooms = []"
    by (simp add: three_rooms_eq store_objects_mk vocab_defs)
  have south: "map_of (getRoomExits three_rooms ''room-3'') south = None"
    by (simp add: exits_get three_rooms_eq store_objects_mk vocab_defs)
  from connectRooms_one_way [OF three_rooms_reachable room fresh] south
  show ?thesis by simp
qed

text \<open>
  Room 1 already has an exit north to room 2; connecting it north to room 3 as well leaves
  \<^verbatim>\<open>getRoomExits\<close> of room 1 with north to room 2 only.
\<close>

theorem connectRooms_second_exit_hidden:
  "is_room three_rooms ''room-1'' \<and> is_room three_rooms ''room-3'' \<and>
   getRoomExits (connectRooms ''room-1'' north ''room-3'' three_rooms) ''room-1'' =
     [(north, ''room-2'')]"
  by (simp add: is_room_def has_def n3_has_def three_rooms_eq getRoomExits_def directions_def
      exit_entry_def eval_world last_segment_def vocab_defs)


subsection \<open>Moving a player\<close>

lemma movePlayer_store:
  "store (datastore (movePlayer playerId roomId w)) =
     n3_addQuad (Quad (entityUri playerId) mudVocab_location (entityUri roomId) DefaultGraph)
       (filter (\<lambda>q. q \<notin> (\<lambda>x. Quad (entityUri playerId) mudVocab_location x DefaultGraph) `
                        set (store_objects (entityUri playerId) mudVocab_location w))
          (store (datastore w)))"
  by (simp add: movePlayer_def Let_def fold_store_remove_store)

lemma movePlayer_location_quads:
  assumes dg: "\<forall>q \<in> set (store (datastore w)). graph q = DefaultGraph"
  shows "filter (\<lambda>q. entityUri playerId = subject q \<and> mudVocab_location = predicate q)
           (store (datastore (movePlayer playerId roomId w))) =
         [Quad (entityUri playerId) mudVocab_location (entityUri roomId) DefaultGraph]"
proof -
  let ?P = "entityUri playerId" and ?L = mudVocab_location
  let ?olds = "store_objects ?P ?L w"
  let ?kept = "filter (\<lambda>q. q \<notin> (\<lambda>x. Quad ?P ?L x DefaultGraph) ` set ?olds) (store (datastore w))"
  have none: "filter (\<lambda>q. ?P = subject q \<and> ?L = predicate q) ?kept = []"
  proof -
    have "\<not> (?P = subject q \<and> ?L = predicate q)" if q: "q \<in> set ?kept" for q
    proof
      assume pl: "?P = subject q \<and> ?L = predicate q"
      from q have mem: "q \<in> set (store (datastore w))"
        and kept: "q \<notin> (\<lambda>x. Quad ?P ?L x DefaultGraph) ` set ?olds" by auto
      from dg mem have "graph q = DefaultGraph" by auto
      with pl have qeq: "q = Quad ?P ?L (object q) DefaultGraph" by (cases q) auto
      from mem pl have "object q \<in> set ?olds" by (auto simp: store_objects_eq)
      with qeq kept show False by (metis (no_types, lifting) image_eqI)
    qed
    then show ?thesis by (auto simp: filter_empty_conv)
  qed
  then have "Quad ?P ?L (entityUri roomId) DefaultGraph \<notin> set ?kept"
    by (auto simp: filter_empty_conv)
  then show ?thesis
    using none by (simp add: movePlayer_store n3_addQuad_def)
qed

text \<open>
  C6. For every player and every room of a world, \<^verbatim>\<open>movePlayer(playerId, roomId)\<close> leaves
  the player with exactly one location statement, the one to the given room, however many
  location statements the player had, and \<^verbatim>\<open>getPlayerLocation\<close> then returns
  \<^verbatim>\<open>roomId\<close>.
\<close>

theorem movePlayer_relocates:
  assumes "reachable w" and "is_room w roomId"
  shows "filter (\<lambda>q. subject q = entityUri playerId \<and> predicate q = mudVocab_location)
           (store (datastore (movePlayer playerId roomId w))) =
           [Quad (entityUri playerId) mudVocab_location (entityUri roomId) DefaultGraph] \<and>
         getPlayerLocation (movePlayer playerId roomId w) playerId = Some roomId"
proof -
  from reachable_wf [OF assms(1)]
  have dg: "\<forall>q \<in> set (store (datastore w)). graph q = DefaultGraph"
    by (simp add: wf_quad_def)
  have one: "filter (\<lambda>q. entityUri playerId = subject q \<and> mudVocab_location = predicate q)
      (store (datastore (movePlayer playerId roomId w))) =
      [Quad (entityUri playerId) mudVocab_location (entityUri roomId) DefaultGraph]"
    using dg by (rule movePlayer_location_quads)
  have same: "(\<lambda>q. subject q = entityUri playerId \<and> predicate q = mudVocab_location) =
      (\<lambda>q. entityUri playerId = subject q \<and> mudVocab_location = predicate q)"
    by auto
  from room_entity_id [OF assms] have "roomId \<noteq> []" and "CHR ''/'' \<notin> set roomId"
    by (simp_all add: entity_id_def)
  then have "getPlayerLocation (movePlayer playerId roomId w) playerId = Some roomId"
    by (simp add: getPlayerLocation_def store_objects_eq one last_segment_entityUri)
  with one show ?thesis by (simp add: same)
qed

lemma stale_world_eq:
  "stale_world = mk_world
     [Quad (entityUri ''room-1'') rdfTypes_type mudVocab_Room DefaultGraph,
      Quad (entityUri ''room-1'') mudVocab_name (createLiteral ''Hall'') DefaultGraph,
      Quad (entityUri ''room-1'') mudVocab_description (createLiteral ''A hall'') DefaultGraph,
      Quad (entityUri ''item-2'') rdfTypes_type mudVocab_Item DefaultGraph,
      Quad (entityUri ''item-2'') mudVocab_name (createLiteral ''Key'') DefaultGraph,
      Quad (entityUri ''item-2'') mudVocab_description (createLiteral ''A key'') DefaultGraph,
      Quad (entityUri ''item-2'') mudVocab_portable (createBooleanLiteral True) DefaultGraph,
      Quad (entityUri ''player-3'') rdfTypes_type mudVocab_Player DefaultGraph,
      Quad (entityUri ''player-3'') mudVocab_name (createLiteral ''Ann'') DefaultGraph,
      Quad (entityUri ''player-3'') mudVocab_location (entityUri ''room-1'') DefaultGraph,
      Quad (entityUri ''player-4'') rdfTypes_type mudVocab_Player DefaultGraph,
      Quad (entityUri ''player-4'') mudVocab_name (createLiteral ''Bob'') DefaultGraph,
      Quad (entityUri ''player-4'') mudVocab_location (entityUri ''room-1'') DefaultGraph,
      Quad (entityUri ''item-2'') mudVocab_location (entityUri ''room-1'') DefaultGraph,
      Quad (entityUri ''room-1'') mudVocab_contains (entityUri ''item-2'') DefaultGraph,
      Quad (entityUri ''player-3'') mudVocab_location (entityUri ''room-9'') DefaultGraph,
      Quad (entityUri ''room-9'') mudVocab_contains (entityUri ''player-3'') DefaultGraph]
     (default_prefixes @ [(''mud'', Some MUD_NS)]) 4"
  by (simp add: stale_world_def hall_world_eq eval_world vocab_defs)

lemma hall_world_reachable: "reachable hall_world"
  unfolding hall_world_def by (intro reachable.intros)

theorem movePlayer_relocates_witness:
  "store_objects (entityUri ''player-3'') mudVocab_location stale_world =
     [entityUri ''room-1'', entityUri ''room-9''] \<and>
   filter (\<lambda>q. subject q = entityUri ''player-3'' \<and> predicate q = mudVocab_location)
     (store (datastore (movePlayer ''player-3'' ''room-1'' stale_world))) =
     [Quad (entityUri ''player-3'') mudVocab_location (entityUri ''room-1'') DefaultGraph] \<and>
   getPlayerLocation (movePlayer ''player-3'' ''room-1'' stale_world) ''player-3'' = Some ''room-1''"
proof -
  have reach: "reachable stale_world"
    unfolding stale_world_def by (intro reachable.intros hall_world_reachable)
  have room: "is_room stale_world ''room-1''"
    by (simp add: is_room_def has_def n3_has_def stale_world_eq)
  have before: "store_objects (entityUri ''player-3'') mudVocab_location stale_world =
      [entityUri ''room-1'', entityUri ''room-9'']"
    by (simp add: stale_world_eq store_objects_mk vocab_defs)
  from movePlayer_relocates [OF reach room, of "''player-3''"] before
  show ?thesis by simp
qed

subsection \<open>Inventories\<close>

text \<open>
  C1. Ann (\<^verbatim>\<open>player-3\<close>) holds the key; \<^verbatim>\<open>addToInventory('player-4', 'item-2')\<close>
  hands it to Bob. Afterwards the key's only location statement points to Bob, yet Ann,
  the previous holder, still has her inventory statement for the key, and the key is
  listed in both inventories.
\<close>

theorem addToInventory_keeps_previous_inventory:
  "store_objects (entityUri ''item-2'') mudVocab_location ann_has_key = [entityUri ''player-3''] \<and>
   getPlayerInventory ann_has_key ''player-3'' = [''item-2''] \<and>
   store_objects (entityUri ''item-2'') mudVocab_location
     (addToInventory ''player-4'' ''item-2'' ann_has_key) = [entityUri ''player-4''] \<and>
   has (entityUri ''player-3'') mudVocab_inventory (entityUri ''item-2'') None
     (datastore (addToInventory ''player-4'' ''item-2'' ann_has_key)) \<and>
   getPlayerInventory (addToInventory ''player-4'' ''item-2'' ann_has_key) ''player-3'' = [''item-2''] \<and>
   getPlayerInventory (addToInventory ''player-4'' ''item-2'' ann_has_key) ''player-4'' = [''item-2'']"
  by (simp add: ann_has_key_eq getPlayerInventory_def has_def n3_has_def eval_world
      last_segment_def vocab_defs)

text \<open>
  C10. For a player that has no location statement, \<^verbatim>\<open>dropItem(playerId, itemId)\<close>
  changes nothing: the world is the same afterwards, and so is the player's inventory.
\<close>

theorem dropItem_without_location:
  assumes "\<forall>q \<in> set (store (datastore w)).
             \<not> (subject q = entityUri playerId \<and> predicate q = mudVocab_location)"
  shows "dropItem playerId itemId w = w \<and>
         getPlayerInventory (dropItem playerId itemId w) playerId = getPlayerInventory w playerId"
proof -
  from assms have "filter (\<lambda>q. entityUri playerId = subject q \<and> mudVocab_location = predicate q)
      (store (datastore w)) = []"
    by (auto simp: filter_empty_conv)
  then have "getPlayerLocation w playerId = None"
    by (simp add: getPlayerLocation_def store_objects_eq)
  then have "dropItem playerId itemId w = w"
    by (simp add: dropItem_def)
  then show ?thesis by simp
qed

lemma nowhere_world_eq:
  "nowhere_world = mk_world
     [Quad (entityUri ''room-1'') rdfTypes_type mudVocab_Room DefaultGraph,
      Quad (entityUri ''room-1'') mudVocab_name (createLiteral ''Hall'') DefaultGraph,
      Quad (entityUri ''room-1'') mudVocab_description (createLiteral ''A hall'') DefaultGraph,
      Quad (entityUri ''item-2'') rdfTypes_type mudVocab_Item DefaultGraph,
      Quad (entityUri ''item-2'') mudVocab_name (createLiteral ''Key'') DefaultGraph,
      Quad (entityUri ''item-2'') mudVocab_description (createLiteral ''A key'') DefaultGraph,
      Quad (entityUri ''item-2'') mudVocab_portable (createBooleanLiteral True) DefaultGraph,
      Quad (entityUri ''player-3'') rdfTypes_type mudVocab_Player DefaultGraph,
      Quad (entityUri ''player-3'') mudVocab_name (createLiteral ''Ann'') DefaultGraph,
      Quad (entityUri ''player-4'') rdfTypes_type mudVocab_Player DefaultGraph,
      Quad (entityUri ''player-4'') mudVocab_name (createLiteral ''Bob'') DefaultGraph,
      Quad (entityUri ''player-4'') mudVocab_location (entityUri ''room-1'') DefaultGraph,
      Quad (entityUri ''player-3'') mudVocab_inventory (entityUri ''item-2'') DefaultGraph,
      Quad (entityUri ''item-2'') mudVocab_location (entityUri ''player-3'') DefaultGraph]
     (default_prefixes @ [(''mud'', Some MUD_NS)]) 4"
  by (simp add: nowhere_world_def ann_has_key_eq eval_world vocab_defs)

theorem dropItem_without_location_witness:
  "dropItem ''player-3'' ''item-2'' nowhere_world = nowhere_world \<and>
   getPlayerInventory (dropItem ''player-3'' ''item-2'' nowhere_world) ''player-3'' = [''item-2'']"
proof -
  have nowhere: "\<forall>q \<in> set (store (datastore nowhere_world)).
      \<not> (subject q = entityUri ''player-3'' \<and> predicate q = mudVocab_location)"
    by (simp add: nowhere_world_eq vocab_defs)
  have carried: "getPlayerInventory nowhere_world ''player-3'' = [''item-2'']"
    by (simp add: nowhere_world_eq getPlayerInventory_def store_objects_mk last_segment_def vocab_defs)
  from dropItem_without_location [OF nowhere, of "''item-2''"] carried
  show ?thesis by simp
qed


section \<open>The command dispatcher\<close>

text \<open>\<^verbatim>\<open>split\<close> always returns a first piece, so \<^verbatim>\<open>parts[0]\<close> is defined.\<close>

lemma split_ws_nonempty: "split_ws s \<noteq> []"
  by (subst split_ws.simps) (simp add: Let_def)

lemma js_trim_blank: "\<forall>c \<in> set input. js_space c \<Longrightarrow> js_trim input = []"
  by (auto simp: js_trim_def dest: set_dropWhileD)

text \<open>
  C8. An input that is empty or consists of white space only is answered with the failure
  ``Please enter a command.'', whatever the registry holds: no command is looked up or
  run, and the world is the one that was passed in.
\<close>

theorem processCommand_blank:
  assumes "\<forall>c \<in> set input. js_space c"
  shows "processCommand commands w playerId input =
           (\<lparr> success = False, message = ''Please enter a command.'' \<rparr>, w)"
  using assms by (simp add: processCommand_def js_trim_blank failure_def)

theorem processCommand_blank_witness:
  "processCommand CommandProcessor_new hall_world ''player-3'' [] =
     (\<lparr> success = False, message = ''Please enter a command.'' \<rparr>, hall_world) \<and>
   processCommand CommandProcessor_new hall_world ''player-3'' [CHR '' '', CHR 0x09, CHR '' ''] =
     (\<lparr> success = False, message = ''Please enter a command.'' \<rparr>, hall_world)"
proof -
  have blank: "\<forall>c \<in> set [CHR '' '', CHR 0x09, CHR '' '']. js_space c"
    by (simp add: js_space_def)
  have empty: "\<forall>c \<in> set ([] :: string). js_space c"
    by simp
  from processCommand_blank [OF blank] processCommand_blank [OF empty]
  show ?thesis by simp
qed

subsection \<open>Taking an item\<close>

lemma fold_take_remove_store:
  "store (datastore (fold (\<lambda>location w'.
       store_remove location c item (store_remove item l location w')) ls w)) =
     filter (\<lambda>q. q \<notin> (\<lambda>x. Quad item l x DefaultGraph) ` set ls \<and>
                  q \<notin> (\<lambda>x. Quad x c item DefaultGraph) ` set ls)
       (store (datastore w))"
  by (induction ls arbitrary: w) (auto simp: n3_removeQuad_def intro: filter_cong)

lemma addToInventory_store:
  "store (datastore (addToInventory playerId itemId w)) =
     n3_addQuad (Quad (entityUri itemId) mudVocab_location (entityUri playerId) DefaultGraph)
       (n3_addQuad (Quad (entityUri playerId) mudVocab_inventory (entityUri itemId) DefaultGraph)
         (filter (\<lambda>q.
              q \<notin> (\<lambda>x. Quad (entityUri itemId) mudVocab_location x DefaultGraph) `
                    set (store_objects (entityUri itemId) mudVocab_location w) \<and>
              q \<notin> (\<lambda>x. Quad x mudVocab_contains (entityUri itemId) DefaultGraph) `
                    set (store_objects (entityUri itemId) mudVocab_location w))
            (store (datastore w))))"
  by (simp add: addToInventory_def Let_def fold_take_remove_store)

lemma getRoomItems_eq:
  "getRoomItems w roomId =
     map (\<lambda>q. id_of (object q))
       (filter (\<lambda>q. entityUri roomId = subject q \<and> mudVocab_contains = predicate q)
          (store (datastore w)))"
  by (simp add: getRoomItems_def store_objects_eq id_of_def o_def)

lemma getPlayerInventory_eq:
  "getPlayerInventory w playerId =
     map (\<lambda>q. id_of (object q))
       (filter (\<lambda>q. entityUri playerId = subject q \<and> mudVocab_inventory = predicate q)
          (store (datastore w)))"
  by (simp add: getPlayerInventory_def store_objects_eq id_of_def o_def)

lemma held_item_reads_back:
  assumes "holds_item w roomId itemId" and "itemId \<in> set (getRoomItems w roomId)"
  shows "id_of (entityUri itemId) = itemId"
proof -
  from assms(2) obtain q where q: "q \<in> set (store (datastore w))"
    "subject q = entityUri roomId" "predicate q = mudVocab_contains" "id_of (object q) = itemId"
    by (auto simp: getRoomItems_eq)
  with assms(1) have "object q = entityUri itemId"
    by (auto simp: holds_item_def list_all_iff)
  with q(4) show ?thesis by simp
qed

lemma addToInventory_leaves_room:
  assumes "holds_item w roomId itemId"
  shows "itemId \<notin> set (getRoomItems (addToInventory playerId itemId w) roomId)"
proof
  let ?I = "entityUri itemId" and ?R = "entityUri roomId"
  let ?locs = "store_objects ?I mudVocab_location w"
  assume "itemId \<in> set (getRoomItems (addToInventory playerId itemId w) roomId)"
  then obtain q where q: "q \<in> set (store (datastore (addToInventory playerId itemId w)))"
    "subject q = ?R" "predicate q = mudVocab_contains" "id_of (object q) = itemId"
    by (auto simp: getRoomItems_eq)
  from q(1,3) have mem: "q \<in> set (store (datastore w))"
    and kept: "q \<notin> (\<lambda>x. Quad x mudVocab_contains ?I DefaultGraph) ` set ?locs"
    by (auto simp: addToInventory_store set_n3_addQuad)
  from assms mem q(2-4) have "object q = ?I" and "graph q = DefaultGraph"
    by (auto simp: holds_item_def list_all_iff)
  with q(2,3) have "q = Quad ?R mudVocab_contains ?I DefaultGraph"
    by (cases q) auto
  moreover from assms have "?R \<in> set ?locs"
    by (simp add: holds_item_def)
  ultimately show False using kept by blast
qed

lemma addToInventory_in_inventory:
  assumes "id_of (entityUri itemId) = itemId"
  shows "itemId \<in> set (getPlayerInventory (addToInventory playerId itemId w) playerId)"
proof -
  have "Quad (entityUri playerId) mudVocab_inventory (entityUri itemId) DefaultGraph
      \<in> set (store (datastore (addToInventory playerId itemId w)))"
    by (simp add: addToInventory_store set_n3_addQuad)
  then have "id_of (entityUri itemId) \<in> set (getPlayerInventory (addToInventory playerId itemId w) playerId)"
    by (force simp: getPlayerInventory_eq)
  with assms show ?thesis by simp
qed

lemma find_item_found:
  "find_item w search items = Some itemId \<Longrightarrow> itemId \<in> set items \<and> name_matches w search itemId"
  by (induction items) (auto split: if_splits)

lemma take_registered: "map_of CommandProcessor_new ''take'' = Some TakeCommand"
  by code_simp

lemma split_ws_empty: "split_ws [] = [[]]"
  by (simp add: split_ws.simps)

lemma take_dispatch:
  assumes "split_ws (js_trim input) = cmd # args" and "toLowerCase cmd = ''take''"
  shows "processCommand CommandProcessor_new w playerId input = TakeCommand_execute w playerId args"
proof -
  have "js_trim input \<noteq> []"
  proof
    assume "js_trim input = []"
    with assms(1) have "cmd = []" by (simp add: split_ws_empty)
    with assms(2) show False by (simp add: toLowerCase_def)
  qed
  with assms show ?thesis
    by (simp add: processCommand_def take_registered)
qed

text \<open>
  C5 (as amended). A player stands in a room, and the first item of the room's listing
  whose name matches the arguments of the take command is held by the room with both
  statements of the pair. If that item is portable, dispatching take succeeds, the item is
  no longer in \<^verbatim>\<open>getRoomItems\<close> of the room and is in \<^verbatim>\<open>getPlayerInventory\<close> of the
  actor; if it is not portable, dispatching take fails and leaves the world, and so both
  listings, unchanged.
\<close>

theorem take_first_match:
  assumes "split_ws (js_trim input) = cmd # args" and "toLowerCase cmd = ''take''"
    and "args \<noteq> []"
    and "getPlayerLocation w playerId = Some roomId"
    and "find_item w (toLowerCase (join '' '' args)) (getRoomItems w roomId) = Some itemId"
    and "itemId \<noteq> []"
    and "holds_item w roomId itemId"
  shows "(isItemPortable w itemId \<longrightarrow>
            success (fst (processCommand CommandProcessor_new w playerId input)) \<and>
            itemId \<notin> set (getRoomItems (snd (processCommand CommandProcessor_new w playerId input)) roomId) \<and>
            itemId \<in> set (getPlayerInventory (snd (processCommand CommandProcessor_new w playerId input)) playerId)) \<and>
         (\<not> isItemPortable w itemId \<longrightarrow>
            \<not> success (fst (processCommand CommandProcessor_new w playerId input)) \<and>
            snd (processCommand CommandProcessor_new w playerId input) = w)"
proof -
  have run: "processCommand CommandProcessor_new w playerId input = TakeCommand_execute w playerId args"
    using assms(1,2) by (rule take_dispatch)
  from assms(4) have room: "roomId \<noteq> []"
    by (auto simp: getPlayerLocation_def split: list.splits option.splits if_splits
        elim: or_null.elims)
  from find_item_found [OF assms(5)] have "itemId \<in> set (getRoomItems w roomId)" by simp
  with assms(7) have reads: "id_of (entityUri itemId) = itemId"
    by (rule held_item_reads_back)
  show ?thesis
  proof (cases "isItemPortable w itemId")
    case True
    with assms(3-6) room have "TakeCommand_execute w playerId args =
        (succeeded (''You take the '' @ show_nullable (getItemName w itemId) @ ''.''),
         addToInventory playerId itemId w)"
      by (simp add: TakeCommand_execute_def Let_def)
    with True run show ?thesis
      by (simp add: succeeded_def addToInventory_leaves_room [OF assms(7)]
          addToInventory_in_inventory [OF reads])
  next
    case False
    with assms(3-6) room have "TakeCommand_execute w playerId args =
        (failure ''You can't take that.'', w)"
      by (simp add: TakeCommand_execute_def Let_def)
    with False run show ?thesis
      by (simp add: failure_def)
  qed
qed


text \<open>The two example worlds of the take command, and what the getters read in them.\<close>

lemma two_keys_world_eq:
  "two_keys_world = mk_world
     [Quad (entityUri ''room-1'') rdfTypes_type mudVocab_Room DefaultGraph,
      Quad (entityUri ''room-1'') mudVocab_name (createLiteral ''Cellar'') DefaultGraph,
      Quad (entityUri ''room-1'') mudVocab_description (createLiteral ''A cellar'') DefaultGraph,
      Quad (entityUri ''item-2'') rdfTypes_type mudVocab_Item DefaultGraph,
      Quad (entityUri ''item-2'') mudVocab_name (createLiteral ''Chained key'') DefaultGraph,
      Quad (entityUri ''item-2'') mudVocab_description (createLiteral ''A key on a chain'') DefaultGraph,
      Quad (entityUri ''item-2'') mudVocab_portable (createBooleanLiteral False) DefaultGraph,
      Quad (entityUri ''item-3'') rdfTypes_type mudVocab_Item DefaultGraph,
      Quad (entityUri ''item-3'') mudVocab_name (createLiteral ''Brass key'') DefaultGraph,
      Quad (entityUri ''item-3'') mudVocab_description (createLiteral ''A small key'') DefaultGraph,
      Quad (entityUri ''item-3'') mudVocab_portable (createBooleanLiteral True) DefaultGraph,
      Quad (entityUri ''player-4'') rdfTypes_type mudVocab_Player DefaultGraph,
      Quad (entityUri ''player-4'') mudVocab_name (createLiteral ''Ann'') DefaultGraph,
      Quad (entityUri ''player-4'') mudVocab_location (entityUri ''room-1'') DefaultGraph,
      Quad (entityUri ''item-2'') mudVocab_location (entityUri ''room-1'') DefaultGraph,
      Quad (entityUri ''room-1'') mudVocab_contains (entityUri ''item-2'') DefaultGraph,
      Quad (entityUri ''item-3'') mudVocab_location (entityUri ''room-1'') DefaultGraph,
      Quad (entityUri ''room-1'') mudVocab_contains (entityUri ''item-3'') DefaultGraph]
     (default_prefixes @ [(''mud'', Some MUD_NS)]) 4"
  by (simp add: two_keys_world_def eval_world vocab_defs eval_nat_numeral)

lemmas eval_getters = getPlayerLocation_def getRoomItems_def getPlayerInventory_def getItemName_def
  isItemPortable_def name_matches_def store_objects_mk last_segment_def toLowerCase_def
  js_lower_char_def

lemma take_key_words: "split_ws (js_trim ''take key'') = [''take'', ''key'']"
  by code_simp

lemma take_lower: "toLowerCase ''take'' = ''take''"
  by (simp add: toLowerCase_def js_lower_char_def)

lemma hall_world_take_facts:
  "getPlayerLocation hall_world ''player-3'' = Some ''room-1''"
  "getRoomItems hall_world ''room-1'' = [''item-2'']"
  "name_matches hall_world ''key'' ''item-2''"
  "isItemPortable hall_world ''item-2''"
  "holds_item hall_world ''room-1'' ''item-2''"
  by (simp_all add: hall_world_eq eval_getters holds_item_def id_of_def vocab_defs)

lemma two_keys_world_take_facts:
  "getPlayerLocation two_keys_world ''player-4'' = Some ''room-1''"
  "getRoomItems two_keys_world ''room-1'' = [''item-2'', ''item-3'']"
  "getPlayerInventory two_keys_world ''player-4'' = []"
  "name_matches two_keys_world ''key'' ''item-2''"
  "name_matches two_keys_world ''key'' ''item-3''"
  "\<not> isItemPortable two_keys_world ''item-2''"
  "isItemPortable two_keys_world ''item-3''"
  "holds_item two_keys_world ''room-1'' ''item-2''"
  by (simp_all add: two_keys_world_eq eval_getters holds_item_def id_of_def vocab_defs)

theorem take_first_match_witness:
  "success (fst (processCommand CommandProcessor_new hall_world ''player-3'' ''take key'')) \<and>
   ''item-2'' \<notin> set (getRoomItems
      (snd (processCommand CommandProcessor_new hall_world ''player-3'' ''take key'')) ''room-1'') \<and>
   ''item-2'' \<in> set (getPlayerInventory
      (snd (processCommand CommandProcessor_new hall_world ''player-3'' ''take key'')) ''player-3'') \<and>
   \<not> success (fst (processCommand CommandProcessor_new two_keys_world ''player-4'' ''take key'')) \<and>
   snd (processCommand CommandProcessor_new two_keys_world ''player-4'' ''take key'') = two_keys_world"
proof -
  have args: "[''key''] \<noteq> ([] :: string list)" and item: "''item-2'' \<noteq> []"
    by simp_all
  have search: "toLowerCase ''key'' = ''key''"
    by (simp add: toLowerCase_def js_lower_char_def)
  have found_hall: "find_item hall_world (toLowerCase (join '' '' [''key'']))
      (getRoomItems hall_world ''room-1'') = Some ''item-2''"
    by (simp add: search hall_world_take_facts)
  have found_cellar: "find_item two_keys_world (toLowerCase (join '' '' [''key'']))
      (getRoomItems two_keys_world ''room-1'') = Some ''item-2''"
    by (simp add: search two_keys_world_take_facts)
  from take_first_match [OF take_key_words take_lower args hall_world_take_facts(1) found_hall item
      hall_world_take_facts(5)]
    take_first_match [OF take_key_words take_lower args two_keys_world_take_facts(1) found_cellar item
      two_keys_world_take_facts(8)]
  show ?thesis
    by (simp add: hall_world_take_facts two_keys_world_take_facts)
qed

text \<open>
  In the cellar the brass key lies in the room, its name matches ``key'' and it is
  portable; yet ``take key'' fails and the brass key stays in the room, because the
  chained key is listed first and is the one the command picks.
\<close>

lemma two_keys_take:
  "processCommand CommandProcessor_new two_keys_world ''player-4'' ''take key'' =
     (failure ''You can't take that.'', two_keys_world)"
proof -
  have search: "toLowerCase ''key'' = ''key''"
    by (simp add: toLowerCase_def js_lower_char_def)
  have "TakeCommand_execute two_keys_world ''player-4'' [''key''] =
      (failure ''You can't take that.'', two_keys_world)"
    by (simp add: TakeCommand_execute_def Let_def search two_keys_world_take_facts)
  with take_dispatch [OF take_key_words take_lower] show ?thesis by simp
qed

theorem take_skips_later_match:
  "getPlayerLocation two_keys_world ''player-4'' = Some ''room-1'' \<and>
   ''item-3'' \<in> set (getRoomItems two_keys_world ''room-1'') \<and>
   name_matches two_keys_world ''key'' ''item-3'' \<and>
   isItemPortable two_keys_world ''item-3'' \<and>
   \<not> success (fst (processCommand CommandProcessor_new two_keys_world ''player-4'' ''take key'')) \<and>
   ''item-3'' \<in> set (getRoomItems
      (snd (processCommand CommandProcessor_new two_keys_world ''player-4'' ''take key'')) ''room-1'') \<and>
   ''item-3'' \<notin> set (getPlayerInventory
      (snd (processCommand CommandProcessor_new two_keys_world ''player-4'' ''take key'')) ''player-4'')"
  by (simp add: two_keys_take two_keys_world_take_facts failure_def)


end
